theory Spec2Isabelle
  imports Main "HOL-Library.Word" "HOL-Library.Sublist" "HOL-Library.AList"
begin

section \<open>Helper package: random numbers (internal/helper/random.go)\<close>

text \<open>
  Go's \<open>int\<close> is the 64-bit two's complement integer of the build target; arithmetic
  wraps around, comparisons are signed.
\<close>

type_synonym go_int = "64 word"

datatype panic = Panic string

text \<open>
  \<open>rand.Intn(n)\<close> panics when \<open>n <= 0\<close> and otherwise returns some value of the
  half-open interval from 0 to n. The generator's raw draw \<open>r\<close> is an input of the model;
  reducing it modulo \<open>n\<close> reaches every value of the interval as \<open>r\<close> varies.
\<close>

definition Intn :: "nat \<Rightarrow> go_int \<Rightarrow> panic + go_int" where
  "Intn r n =
     (if n \<le>s 0 then Inl (Panic ''invalid argument to Intn'')
      else Inr (word_of_nat (r mod nat (sint n))))"

text \<open>The loop \<open>for i := 1; i < length; i++\<close> of GenerateRandomNumber.\<close>

function digits_loop :: "go_int \<Rightarrow> go_int \<Rightarrow> go_int \<Rightarrow> go_int \<Rightarrow> go_int \<times> go_int" where
  "digits_loop i len minimum maximum =
     (if i <s len
      then digits_loop (i + 1) len (minimum * 10) (maximum * 10 + 9)
      else (minimum, maximum))"
  by pat_completeness auto

termination digits_loop
proof (relation "measure (\<lambda>(i, n, _, _). nat (sint n - sint i))")
  show "wf (measure (\<lambda>(i, n, _, _). nat (sint n - sint i)))"
    by simp
next
  fix i n minimum maximum :: go_int
  assume "i <s n"
  then have lt: "sint i < sint n"
    by (simp add: word_sless_alt)
  have hi: "sint n < 2 ^ 63"
    using sint_less [of n] by simp
  have lo: "- (2 ^ 63) \<le> sint i"
    using sint_greater_eq [of i] by simp
  have "sint (i + 1) = signed_take_bit 63 (sint i + 1)"
    by (simp add: sint_word_ariths)
  also have "\<dots> = sint i + 1"
    using lt hi lo by (intro signed_take_bit_int_eq_self) auto
  finally have "sint (i + 1) = sint i + 1" .
  then show "((i + 1, n, minimum * 10, maximum * 10 + 9), (i, n, minimum, maximum))
        \<in> measure (\<lambda>(i, n, _, _). nat (sint n - sint i))"
    using lt by simp
qed

declare digits_loop.simps [simp del]

definition GenerateRandomNumber :: "nat \<Rightarrow> go_int \<Rightarrow> panic + go_int" where
  "GenerateRandomNumber r len =
     (if len \<le>s 0 then Inr 0
      else
        (case digits_loop 1 len 1 1 of
           (minimum, maximum) \<Rightarrow>
             (case Intn r (maximum - minimum + 1) of
                Inl p \<Rightarrow> Inl p
              | Inr v \<Rightarrow> Inr (minimum + v))))"

text \<open>
  GenerateRandomNumberInRange builds a fresh generator, seeded with \<open>seed\<close> when it is
  positive and with the clock reading \<open>time.Now().UnixNano()\<close> otherwise. The algorithm
  of math/rand is a fixed function of the seed: \<open>draw s n\<close> is the raw value behind the
  first \<open>Intn(n)\<close> of a generator seeded with \<open>s\<close>. The clock reading \<open>now\<close> is an input.
\<close>

definition GenerateRandomNumberInRange ::
  "(go_int \<Rightarrow> go_int \<Rightarrow> nat) \<Rightarrow> go_int \<Rightarrow> go_int \<Rightarrow> go_int \<Rightarrow> go_int \<Rightarrow> panic + go_int" where
  "GenerateRandomNumberInRange draw now min_v max_v seed =
     (if max_v \<le>s min_v then Inr min_v
      else
        (let s = (if 0 <s seed then seed else now);
             n = max_v - min_v + 1
         in case Intn (draw s n) n of
              Inl p \<Rightarrow> Inl p
            | Inr v \<Rightarrow> Inr (min_v + v)))"

section \<open>Repository: VirtualMachineRepo.Get\<close>

text \<open>
  The gorm call \<open>DB.WithContext(ctx).First(&vm, id).Error\<close> is the store's answer for an
  id: a row, the sentinel \<open>gorm.ErrRecordNotFound\<close>, or another error. Get compares the
  error with the sentinel by \<open>==\<close>.
\<close>

datatype db_error = ErrRecordNotFound | DbError string

record VirtualMachine =
  Id :: "32 word"
  Name :: string
  Description :: string
  Status :: string
  Type :: string
  Resources :: string
  IPAddress :: string
  UserID :: "32 word"
  Port :: "32 word"

type_synonym store = "32 word \<Rightarrow> db_error + VirtualMachine"

definition Get :: "store \<Rightarrow> 32 word \<Rightarrow> VirtualMachine option \<times> db_error option" where
  "Get db ident =
     (case db ident of
        Inl err \<Rightarrow> (if err = ErrRecordNotFound then (None, None) else (None, Some err))
      | Inr vm \<Rightarrow> (Some vm, None))"

section \<open>The build host: files, processes, clock\<close>

text \<open>
  The image builder (LXCBuilder) works through the operating system: it runs external
  programs, reads the clock and touches files. The host is modelled as follows.

  \<^item> Paths are cleaned slash-separated strings; \<open>filepath.Join\<close> of a cleaned directory
    and a name puts one slash between them.
  \<^item> The filesystem is a flat table from paths to nodes: files, directories and symbolic
    links (a link holds its target). A directory that a path only passes through need
    not be listed. \<open>os.Stat\<close> and \<open>os.Chmod\<close> resolve a path as the system calls do,
    element by element, following every link on the way and at the end: a link whose
    target is missing is reported as missing, and after more than 40 links the call fails
    with "too many levels of symbolic links". \<open>os.Remove\<close> and \<open>os.Symlink\<close> act on
    the link itself. The files that the builder reads and writes by name (configuration,
    metadata, scripts) are regular files, directories or absent: \<open>os_ReadFile\<close> and
    \<open>os_WriteFile\<close> act on the node stored at the path, and reading the content of a link
    node fails.
  \<^item> What the outside world decides is read from an environment, indexed by a counter
    of interactions: the output and exit of each external program, its effect on the
    files, whether a system call fails for a reason outside the table (permissions, I/O),
    and the clock.
  \<^item> The archiver \<open>tar -czf out -C dir members\<close> is modelled by its effect: on exit
    status 0 the node at \<open>out\<close> is an archive of exactly the listed members taken relative
    to \<open>dir\<close>; on failure it leaves at most an incomplete file at \<open>out\<close>.
\<close>

type_synonym path = string

definition Join :: "path \<Rightarrow> string \<Rightarrow> path" where
  "Join dir name = dir @ ''/'' @ name"



datatype node = File string | Dir | Symlink string | TarGz path "string list" | Incomplete

type_synonym filesystem = "(path \<times> node) list"

datatype error =
    ExitError nat
  | ExecError string
  | PathError string path string
  | ErrorString string
  | Wrapped string error

datatype proc_exit = Exited nat | NotStarted string

record clock_time =
  year :: nat
  month :: nat
  day :: nat
  hour :: nat
  minute :: nat
  second :: nat
  zone :: string

record env =
  cmd_output :: "nat \<Rightarrow> string \<Rightarrow> string list \<Rightarrow> string"
  cmd_exit :: "nat \<Rightarrow> string \<Rightarrow> string list \<Rightarrow> proc_exit"
  cmd_effect :: "nat \<Rightarrow> string \<Rightarrow> string list \<Rightarrow> filesystem \<Rightarrow> filesystem"
  tar_leaves_partial :: "nat \<Rightarrow> bool"
  io_fault :: "nat \<Rightarrow> bool"
  archive_bytes :: "path \<Rightarrow> string list \<Rightarrow> string"
  clock :: "nat \<Rightarrow> clock_time"

datatype event =
    EvExec string "string list" "error option"
  | EvRemove path "error option"
  | EvSymlink string path "error option"
  | EvWriteFile path string "error option"
  | EvChmod path "error option"
  | EvSleep nat

record world =
  fs :: filesystem
  stdout :: "string list"
  logfile :: "string list"
  trace :: "event list"
  tick :: nat

record LXCBuilder =
  WorkDir :: path
  ContainerDir :: path
  LogFile :: "path option"

abbreviation nl :: string where
  "nl \<equiv> [CHR 0x0A]"

subsection \<open>Formatting\<close>

definition digit :: "nat \<Rightarrow> char" where
  "digit n = ''0123456789'' ! (n mod 10)"

fun show_nat :: "nat \<Rightarrow> string" where
  "show_nat n = (if n < 10 then [digit n] else show_nat (n div 10) @ [digit n])"

declare show_nat.simps [simp del]

definition pad2 :: "nat \<Rightarrow> string" where
  "pad2 n = [digit (n div 10), digit n]"

definition pad4 :: "nat \<Rightarrow> string" where
  "pad4 n = [digit (n div 1000), digit (n div 100), digit (n div 10), digit n]"

text \<open>The three layouts the builder formats the clock with.\<close>

definition format_hms :: "clock_time \<Rightarrow> string" where
  "format_hms t = pad2 (hour t) @ '':'' @ pad2 (minute t) @ '':'' @ pad2 (second t)"

definition format_stamp :: "clock_time \<Rightarrow> string" where
  "format_stamp t =
     pad4 (year t) @ pad2 (month t) @ pad2 (day t) @ ''-'' @
     pad2 (hour t) @ pad2 (minute t) @ pad2 (second t)"

definition format_rfc3339 :: "clock_time \<Rightarrow> string" where
  "format_rfc3339 t =
     pad4 (year t) @ ''-'' @ pad2 (month t) @ ''-'' @ pad2 (day t) @ ''T'' @
     pad2 (hour t) @ '':'' @ pad2 (minute t) @ '':'' @ pad2 (second t) @ zone t"

fun error_text :: "error \<Rightarrow> string" where
  "error_text (ExitError n) = ''exit status '' @ show_nat n"
| "error_text (ExecError m) = m"
| "error_text (PathError op p m) = op @ '' '' @ p @ '': '' @ m"
| "error_text (ErrorString m) = m"
| "error_text (Wrapped m e) = m @ error_text e"

text \<open>\<open>strings.Join(args, " ")\<close>.\<close>

fun join_space :: "string list \<Rightarrow> string" where
  "join_space [] = []"
| "join_space [a] = a"
| "join_space (a # b # rest) = a @ '' '' @ join_space (b # rest)"

subsection \<open>System calls\<close>

definition ENOENT :: string where
  "ENOENT = ''no such file or directory''"

definition ELOOP :: string where
  "ELOOP = ''too many levels of symbolic links''"

definition ENOTDIR :: string where
  "ENOTDIR = ''not a directory''"

text \<open>The elements of a path: what stands between its slashes, without the empty ones and \<open>.\<close>\<close>

fun split_slash :: "string \<Rightarrow> string list" where
  "split_slash [] = [[]]"
| "split_slash (c # cs) =
     (if c = CHR ''/'' then [] # split_slash cs
      else (case split_slash cs of
              x # xs \<Rightarrow> (c # x) # xs
            | [] \<Rightarrow> [[c]]))"

definition elems :: "path \<Rightarrow> string list" where
  "elems p = filter (\<lambda>x. x \<noteq> [] \<and> x \<noteq> ''.'') (split_slash p)"

definition is_abs :: "path \<Rightarrow> bool" where
  "is_abs p = (p \<noteq> [] \<and> hd p = CHR ''/'')"

fun join_slash :: "string list \<Rightarrow> string" where
  "join_slash [] = []"
| "join_slash [a] = a"
| "join_slash (a # b # rest) = a @ ''/'' @ join_slash (b # rest)"

text \<open>The path of a directory given by its elements, innermost first.\<close>

definition path_of :: "bool \<Rightarrow> string list \<Rightarrow> path" where
  "path_of absolute dir = (if absolute then ''/'' else []) @ join_slash (rev dir)"

text \<open>
  Path resolution as \<open>stat\<close> does it. \<open>dir\<close> is the directory reached so far (its
  elements, innermost first), the last argument holds the elements still to be walked,
  and \<open>links\<close> is the number of links that may still be followed. \<open>..\<close> steps to the
  parent of the directory reached. An element that is a link is replaced by the elements
  of its target, walked from the root for an absolute target and from the directory of
  the link otherwise. The result is the node found or the reason of the failure.
\<close>

fun stat_walk ::
  "filesystem \<Rightarrow> nat \<Rightarrow> bool \<Rightarrow> string list \<Rightarrow> string list \<Rightarrow> string + node" where
  "stat_walk f links absolute dir [] = Inr Dir"
| "stat_walk f links absolute dir (x # rest) =
     (if x = ''..'' then stat_walk f links absolute (tl dir) rest
      else
        (case map_of f (path_of absolute (x # dir)) of
           None \<Rightarrow>
             (if rest = [] then Inl ENOENT else stat_walk f links absolute (x # dir) rest)
         | Some n \<Rightarrow>
             (case n of
                Symlink t \<Rightarrow>
                  (if links = 0 then Inl ELOOP
                   else if is_abs t then stat_walk f (links - 1) True [] (elems t @ rest)
                   else stat_walk f (links - 1) absolute dir (elems t @ rest))
              | Dir \<Rightarrow> (if rest = [] then Inr n else stat_walk f links absolute (x # dir) rest)
              | _ \<Rightarrow> (if rest = [] then Inr n else Inl ENOTDIR))))"

declare stat_walk.simps [simp del]

definition stat_path :: "filesystem \<Rightarrow> path \<Rightarrow> string + node" where
  "stat_path f p = (if p = [] then Inl ENOENT else stat_walk f 40 (is_abs p) [] (elems p))"

text \<open>\<open>os.Stat\<close>: the node that the path leads to, links followed.\<close>

definition os_Stat :: "world \<Rightarrow> path \<Rightarrow> error + node" where
  "os_Stat w p =
     (case stat_path (fs w) p of
        Inl reason \<Rightarrow> Inl (PathError ''stat'' p reason)
      | Inr n \<Rightarrow> Inr n)"


fun os_IsNotExist :: "error + 'a \<Rightarrow> bool" where
  "os_IsNotExist (Inl (PathError op p m)) = (m = ENOENT)"
| "os_IsNotExist r = False"


definition has_children :: "filesystem \<Rightarrow> path \<Rightarrow> bool" where
  "has_children f p = list_ex (\<lambda>q. prefix (p @ ''/'') q) (map fst f)"

definition os_WriteFile :: "env \<Rightarrow> path \<Rightarrow> string \<Rightarrow> world \<Rightarrow> error option \<times> world" where
  "os_WriteFile e p c w =
     (let err =
            (if io_fault e (tick w) then Some (PathError ''open'' p ''permission denied'')
             else if map_of (fs w) p = Some Dir then Some (PathError ''open'' p ''is a directory'')
             else None)
      in (err,
          w\<lparr>fs := (if err = None then AList.update p (File c) (fs w) else fs w),
            trace := trace w @ [EvWriteFile p c err],
            tick := Suc (tick w)\<rparr>))"

definition os_Remove :: "env \<Rightarrow> path \<Rightarrow> world \<Rightarrow> error option \<times> world" where
  "os_Remove e p w =
     (let err =
            (if io_fault e (tick w) then Some (PathError ''remove'' p ''permission denied'')
             else if map_of (fs w) p = None then Some (PathError ''remove'' p ENOENT)
             else if map_of (fs w) p = Some Dir \<and> has_children (fs w) p
               then Some (PathError ''remove'' p ''directory not empty'')
             else None)
      in (err,
          w\<lparr>fs := (if err = None then AList.delete p (fs w) else fs w),
            trace := trace w @ [EvRemove p err],
            tick := Suc (tick w)\<rparr>))"

definition os_Symlink :: "env \<Rightarrow> string \<Rightarrow> path \<Rightarrow> world \<Rightarrow> error option \<times> world" where
  "os_Symlink e target p w =
     (let err =
            (if io_fault e (tick w) then Some (PathError ''symlink'' p ''permission denied'')
             else if map_of (fs w) p \<noteq> None then Some (PathError ''symlink'' p ''file exists'')
             else None)
      in (err,
          w\<lparr>fs := (if err = None then AList.update p (Symlink target) (fs w) else fs w),
            trace := trace w @ [EvSymlink target p err],
            tick := Suc (tick w)\<rparr>))"





subsection \<open>External programs\<close>

definition tar_effect :: "env \<Rightarrow> nat \<Rightarrow> string list \<Rightarrow> bool \<Rightarrow> filesystem \<Rightarrow> filesystem" where
  "tar_effect e t args ok f =
     (case args of
        flag # out # c # dir # members \<Rightarrow>
          (if flag = ''-czf'' \<and> c = ''-C''
           then (if ok then AList.update out (TarGz dir members) f
                 else if tar_leaves_partial e t then AList.update out Incomplete f
                 else f)
           else f)
      | _ \<Rightarrow> f)"

text \<open>
  \<open>exec.Command(name, args...).CombinedOutput()\<close>: the captured output, and an error
  when the program could not be started or exited with a status other than 0.
\<close>

definition exit_error :: "proc_exit \<Rightarrow> error option" where
  "exit_error ex =
     (case ex of
        Exited n \<Rightarrow> (if n = 0 then None else Some (ExitError n))
      | NotStarted m \<Rightarrow> Some (ExecError m))"

definition captured :: "env \<Rightarrow> nat \<Rightarrow> string \<Rightarrow> string list \<Rightarrow> string" where
  "captured e t name args =
     (case cmd_exit e t name args of
        Exited n \<Rightarrow> cmd_output e t name args
      | NotStarted m \<Rightarrow> [])"

definition exec_effect ::
  "env \<Rightarrow> nat \<Rightarrow> string \<Rightarrow> string list \<Rightarrow> filesystem \<Rightarrow> filesystem" where
  "exec_effect e t name args f =
     (case cmd_exit e t name args of
        Exited n \<Rightarrow>
          (if name = ''tar'' then tar_effect e t args (n = 0) f
           else cmd_effect e t name args f)
      | NotStarted m \<Rightarrow> f)"

definition CombinedOutput ::
  "env \<Rightarrow> string \<Rightarrow> string list \<Rightarrow> world \<Rightarrow> (string \<times> error option) \<times> world" where
  "CombinedOutput e name args w =
     (let t = tick w;
          err = exit_error (cmd_exit e t name args)
      in ((captured e t name args, err),
          w\<lparr>fs := exec_effect e t name args (fs w),
            trace := trace w @ [EvExec name args err],
            tick := Suc t\<rparr>))"

section \<open>The image builder (LXCBuilder)\<close>

abbreviation U_package :: string where "U_package \<equiv> [CHR 0xF0, CHR 0x9F, CHR 0x93, CHR 0xA6]"
abbreviation U_check :: string where "U_check \<equiv> [CHR 0xE2, CHR 0x9C, CHR 0x85]"
abbreviation U_folder :: string where "U_folder \<equiv> [CHR 0xF0, CHR 0x9F, CHR 0x93, CHR 0x81]"
abbreviation U_link :: string where "U_link \<equiv> [CHR 0xF0, CHR 0x9F, CHR 0x94, CHR 0x97]"
abbreviation U_clipboard :: string where "U_clipboard \<equiv> [CHR 0xF0, CHR 0x9F, CHR 0x93, CHR 0x8B]"
abbreviation U_glass :: string where "U_glass \<equiv> [CHR 0xF0, CHR 0x9F, CHR 0x94, CHR 0x8D]"
abbreviation U_tick :: string where "U_tick \<equiv> [CHR 0xE2, CHR 0x9C, CHR 0x93]"
abbreviation U_cross :: string where "U_cross \<equiv> [CHR 0xE2, CHR 0x9C, CHR 0x97]"
abbreviation U_memo :: string where "U_memo \<equiv> [CHR 0xF0, CHR 0x9F, CHR 0x93, CHR 0x9D]"
abbreviation U_page :: string where "U_page \<equiv> [CHR 0xF0, CHR 0x9F, CHR 0x93, CHR 0x84]"


text \<open>\<open>log\<close>: a line stamped with the time of day, to standard output and to the log file.\<close>

definition log :: "env \<Rightarrow> LXCBuilder \<Rightarrow> string \<Rightarrow> world \<Rightarrow> world" where
  "log e l msg w =
     (let message = ''['' @ format_hms (clock e (tick w)) @ ''] '' @ msg
      in w\<lparr>stdout := stdout w @ [message @ nl],
           logfile := (if LogFile l \<noteq> None then logfile w @ [message @ nl] else logfile w)\<rparr>)"

definition runCommand ::
  "env \<Rightarrow> LXCBuilder \<Rightarrow> string \<Rightarrow> string list \<Rightarrow> world \<Rightarrow> error option \<times> world" where
  "runCommand e l name args w =
     (let w1 = log e l (''Running: '' @ name @ '' '' @ join_space args) w;
          ((output, err), w2) = CombinedOutput e name args w1;
          w3 = (if length output > 0
                then w2\<lparr>stdout := stdout w2 @ [output],
                        logfile := (if LogFile l \<noteq> None then logfile w2 @ [output]
                                    else logfile w2)\<rparr>
                else w2)
      in (err, w3))"

text \<open>The trace line that runCommand writes first.\<close>

definition running_line :: "env \<Rightarrow> nat \<Rightarrow> string \<Rightarrow> string list \<Rightarrow> string" where
  "running_line e t name args =
     ''['' @ format_hms (clock e t) @ ''] '' @ ''Running: '' @ name @ '' '' @ join_space args @ nl"

definition dirExists :: "world \<Rightarrow> path \<Rightarrow> bool" where
  "dirExists w p = (if os_IsNotExist (os_Stat w p) then False else True)"

definition unlines :: "string list \<Rightarrow> string" where
  "unlines ls = concat (map (\<lambda>x. x @ nl) ls)"

definition osReleaseContent :: string where
  "osReleaseContent = unlines
     [''NAME=\"Ubuntu\"'',
      ''VERSION=\"22.04.5 LTS (Jammy Jellyfish)\"'',
      ''ID=ubuntu'',
      ''ID_LIKE=debian'',
      ''PRETTY_NAME=\"Ubuntu 22.04.5 LTS\"'',
      ''VERSION_ID=\"22.04\"'',
      ''HOME_URL=\"https://www.ubuntu.com/\"'',
      ''SUPPORT_URL=\"https://help.ubuntu.com/\"'',
      ''BUG_REPORT_URL=\"https://bugs.launchpad.net/ubuntu/\"'',
      ''PRIVACY_POLICY_URL=\"https://www.ubuntu.com/legal/terms-and-policies/privacy-policy\"'',
      ''VERSION_CODENAME=jammy'',
      ''UBUNTU_CODENAME=jammy'']"

definition lsbReleaseContent :: string where
  "lsbReleaseContent = unlines
     [''DISTRIB_ID=Ubuntu'',
      ''DISTRIB_RELEASE=22.04'',
      ''DISTRIB_CODENAME=jammy'',
      ''DISTRIB_DESCRIPTION=\"Ubuntu 22.04.5 LTS\"'']"

definition createProxmoxMetadata ::
  "env \<Rightarrow> LXCBuilder \<Rightarrow> path \<Rightarrow> world \<Rightarrow> error option \<times> world" where
  "createProxmoxMetadata e l rootfsPath w =
     (let w1 = log e l (U_memo @ '' Creating Proxmox metadata...'') w;
          osReleasePath = Join (Join rootfsPath ''etc'') ''os-release'';
          (err1, w2) = os_WriteFile e osReleasePath osReleaseContent w1
      in case err1 of
           Some err \<Rightarrow> (Some (Wrapped ''failed to create os-release: '' err), w2)
         | None \<Rightarrow>
             (let lsbReleasePath = Join (Join rootfsPath ''etc'') ''lsb-release'';
                  (err2, w3) = os_WriteFile e lsbReleasePath lsbReleaseContent w2
              in case err2 of
                   Some err \<Rightarrow> (Some (Wrapped ''failed to create lsb-release: '' err), w3)
                 | None \<Rightarrow> (None, w3)))"

definition exportBaseContainer ::
  "env \<Rightarrow> LXCBuilder \<Rightarrow> path \<Rightarrow> path \<Rightarrow> world \<Rightarrow> error option \<times> world" where
  "exportBaseContainer e l workDir containerPath w =
     (let w1 = log e l (U_package @
                 '' Exporting base container as Proxmox-compatible tar.gz template...'') w;
          timestamp = format_stamp (clock e (tick w1));
          tarGzName = ''lxc-ubuntu-base-'' @ timestamp @ ''.tar.gz'';
          tarGzPath = Join workDir tarGzName;
          rootfsPath = Join containerPath ''rootfs'';
          (merr, w2) = createProxmoxMetadata e l rootfsPath w1;
          w3 = (case merr of
                  Some err \<Rightarrow> log e l (''Warning: failed to create metadata: '' @ error_text err) w2
                | None \<Rightarrow> w2);
          w4 = log e l (''Creating Proxmox-compatible tar.gz archive: '' @ tarGzPath) w3;
          (terr, w5) = runCommand e l ''tar'' [''-czf'', tarGzPath, ''-C'', rootfsPath, ''.''] w4
      in case terr of
           Some err \<Rightarrow> (Some (Wrapped ''failed to create tar.gz archive: '' err), w5)
         | None \<Rightarrow>
             (let symlinkPath = Join workDir ''lxc-ubuntu-latest.tar.gz'';
                  (rerr, w6) = os_Remove e symlinkPath w5;
                  (serr, w7) = os_Symlink e tarGzName symlinkPath w6;
                  w8 = (case serr of
                          Some err \<Rightarrow>
                            log e l (''Warning: failed to create symlink: '' @ error_text err) w7
                        | None \<Rightarrow> w7);
                  w9 = log e l (U_check @ '' Proxmox-compatible container template exported!'') w8;
                  w10 = log e l (U_folder @ '' Archive location: '' @ tarGzPath) w9;
                  w11 = log e l (U_link @ '' Latest symlink: '' @ symlinkPath) w10;
                  w12 = log e l (U_clipboard @
                          '' Usage: Copy to /var/lib/vz/template/cache/ on Proxmox'') w11
              in (None, w12)))"

definition createLayerMetadata ::
  "env \<Rightarrow> LXCBuilder \<Rightarrow> path \<Rightarrow> string \<Rightarrow> string \<Rightarrow> string \<Rightarrow> world \<Rightarrow> world" where
  "createLayerMetadata e l workDir layerName parentLayer archiveName w =
     (let metadata =
            ''{'' @ nl @
            ''  \"layer_name\": \"'' @ layerName @ ''\",'' @ nl @
            ''  \"parent_layer\": \"'' @ parentLayer @ ''\", '' @ nl @
            ''  \"archive\": \"'' @ archiveName @ ''\",'' @ nl @
            ''  \"created\": \"'' @ format_rfc3339 (clock e (tick w)) @ ''\",'' @ nl @
            ''  \"type\": \"diff_layer\"'' @ nl @
            ''}'';
          metadataPath = Join workDir (layerName @ ''-layer.json'');
          (werr, w1) = os_WriteFile e metadataPath metadata w
      in log e l (U_page @ '' Layer metadata: '' @ metadataPath) w1)"

definition possibleFiles :: "string list" where
  "possibleFiles =
     [''usr/lib/jvm'', ''etc/environment'', ''etc/bash.bashrc'', ''usr/bin/java'', ''usr/bin/javac'']"

text \<open>
  The loop of exportLayeredContainer over the candidate files: a file is kept when
  \<open>os.Stat\<close> of its place under the rootfs returns no error.
\<close>

fun filesToTar_loop ::
  "env \<Rightarrow> LXCBuilder \<Rightarrow> path \<Rightarrow> string list \<Rightarrow> string list \<Rightarrow> world \<Rightarrow> string list \<times> world" where
  "filesToTar_loop e l containerRootfs [] filesToTar w = (filesToTar, w)"
| "filesToTar_loop e l containerRootfs (file # rest) filesToTar w =
     (let fullPath = Join containerRootfs file
      in case os_Stat w fullPath of
           Inr n \<Rightarrow>
             filesToTar_loop e l containerRootfs rest (filesToTar @ [file])
               (log e l (U_tick @ '' Found: '' @ file) w)
         | Inl err \<Rightarrow>
             filesToTar_loop e l containerRootfs rest filesToTar
               (log e l (U_cross @ '' Missing: '' @ file) w))"

definition exportLayeredContainer ::
  "env \<Rightarrow> LXCBuilder \<Rightarrow> path \<Rightarrow> path \<Rightarrow> string \<Rightarrow> world \<Rightarrow> error option \<times> world" where
  "exportLayeredContainer e l workDir containerPath containerName w =
     (let w1 = log e l (U_package @ '' Exporting layered container with diff-only approach...'') w;
          parentLayer = ''ubuntu-base'';
          parentPath = Join (ContainerDir l) parentLayer
      in if \<not> dirExists w1 parentPath
         then exportBaseContainer e l workDir containerPath
                (log e l ''Warning: Parent layer not found, exporting full container'' w1)
         else
           (let timestamp = format_stamp (clock e (tick w1));
                tarGzName = ''lxc-'' @ containerName @ ''-layer-'' @ timestamp @ ''.tar.gz'';
                tarGzPath = Join workDir tarGzName;
                containerRootfs = Join containerPath ''rootfs'';
                w2 = log e l (U_glass @
                       '' Creating layer diff archive with Java-specific files...'') w1;
                (filesToTar, w3) = filesToTar_loop e l containerRootfs possibleFiles [] w2
            in if length filesToTar = 0
               then (Some (ErrorString
                       ''no Java files found in container - Java installation may have failed''),
                     w3)
               else
                 (let args = [''-czf'', tarGzPath, ''-C'', containerRootfs] @ filesToTar;
                      (terr, w4) = runCommand e l ''tar'' args w3
                  in case terr of
                       Some err \<Rightarrow>
                         (Some (Wrapped ''failed to create layer diff archive: '' err), w4)
                     | None \<Rightarrow>
                         (let symlinkPath =
                                Join workDir (''lxc-'' @ containerName @ ''-layer-latest.tar.gz'');
                              (rerr, w5) = os_Remove e symlinkPath w4;
                              (serr, w6) = os_Symlink e tarGzName symlinkPath w5;
                              w7 = (case serr of
                                      Some err \<Rightarrow>
                                        log e l (''Warning: failed to create symlink: '' @
                                                 error_text err) w6
                                    | None \<Rightarrow> w6);
                              w8 = createLayerMetadata e l workDir containerName parentLayer
                                     tarGzName w7;
                              w9 = log e l (U_check @ '' Layer diff exported successfully!'') w8;
                              w10 = log e l (U_folder @ '' Archive location: '' @ tarGzPath) w9;
                              w11 = log e l (U_link @ '' Latest symlink: '' @ symlinkPath) w10;
                              w12 = log e l (U_clipboard @
                                      '' This layer contains only changes from '' @ parentLayer) w11
                          in (None, w12)))))"


subsection \<open>Cloning a layer from its parent\<close>




subsection \<open>Building the Java 8 layer\<close>










section \<open>The provisioning scripts\<close>

text \<open>
  The builders write a bash script and run it inside the container. A script is modelled by
  what it does when run: the lines it echoes and the programs it runs, in order, and its
  exit status. The exit status of each program comes from the environment: \<open>env c k\<close> is
  the status of the \<open>k\<close>-th run (counted from 0) of the command \<open>c\<close>. \<open>echo\<close> to standard
  output always succeeds; a command with a redirection is a program run like any other.
\<close>

datatype sh_event = Echo string | Ran string nat

type_synonym sh_env = "string \<Rightarrow> nat \<Rightarrow> nat"

fun is_run_of :: "string \<Rightarrow> sh_event \<Rightarrow> bool" where
  "is_run_of c (Ran c' st) = (c' = c)"
| "is_run_of c (Echo m) = False"

definition count_runs :: "string \<Rightarrow> sh_event list \<Rightarrow> nat" where
  "count_runs c evs = length (filter (is_run_of c) evs)"

definition sh_run :: "sh_env \<Rightarrow> string \<Rightarrow> sh_event list \<Rightarrow> nat \<times> sh_event list" where
  "sh_run env c evs = (let st = env c (count_runs c evs) in (st, evs @ [Ran c st]))"

text \<open>\<open>cmd || echo msg\<close>: the message is echoed when the command fails.\<close>

definition sh_run_or_echo :: "sh_env \<Rightarrow> string \<Rightarrow> string \<Rightarrow> sh_event list \<Rightarrow> sh_event list" where
  "sh_run_or_echo env c msg evs =
     (let (st, evs1) = sh_run env c evs in if st \<noteq> 0 then evs1 @ [Echo msg] else evs1)"

subsection \<open>The base image script (buildUbuntuContainer), run under \<open>set -e\<close>\<close>

text \<open>
  The script is a straight line of steps. Under \<open>set -e\<close> the first simple command that
  fails ends the script with that command's status; a command on the left of \<open>||\<close> does
  not.
\<close>

datatype sh_step = StepEcho string | StepRun string | StepRunOrEcho string string

fun errexit_steps :: "sh_env \<Rightarrow> sh_step list \<Rightarrow> sh_event list \<Rightarrow> nat \<times> sh_event list" where
  "errexit_steps env [] evs = (0, evs)"
| "errexit_steps env (StepEcho m # rest) evs = errexit_steps env rest (evs @ [Echo m])"
| "errexit_steps env (StepRun c # rest) evs =
     (let (st, evs1) = sh_run env c evs
      in if st \<noteq> 0 then (st, evs1) else errexit_steps env rest evs1)"
| "errexit_steps env (StepRunOrEcho c m # rest) evs =
     errexit_steps env rest (sh_run_or_echo env c m evs)"

abbreviation apt_get_update :: string where
  "apt_get_update \<equiv> ''apt-get update''"

definition ubuntu_setup_steps :: "sh_step list" where
  "ubuntu_setup_steps =
     [StepEcho ([CHR 0xF0, CHR 0x9F, CHR 0x8C, CHR 0x90] @ '' Setting up DNS resolution...''),
      StepRun (''cat > /etc/resolv.conf''),
      StepEcho ([CHR 0xF0, CHR 0x9F, CHR 0x94, CHR 0x8D] @ '' Testing DNS resolution...''),
      StepRunOrEcho (''nslookup archive.ubuntu.com'') (''Warning: DNS resolution test failed''),
      StepEcho ([CHR 0xF0, CHR 0x9F, CHR 0x93, CHR 0xA6] @ '' RUN apt-get update''),
      StepRun apt_get_update,
      StepEcho ([CHR 0xF0, CHR 0x9F, CHR 0x93, CHR 0xA6] @ '' RUN apt-get upgrade -y''),
      StepRun (''DEBIAN_FRONTEND=noninteractive apt-get upgrade -y''),
      StepEcho ([CHR 0xF0, CHR 0x9F, CHR 0x93, CHR 0xA6] @ '' RUN apt-get install -y essential packages''),
      StepRun (''DEBIAN_FRONTEND=noninteractive apt-get install -y curl wget vim git build-essential software-properties-common ca-certificates gnupg lsb-release dnsutils iputils-ping''),
      StepEcho ([CHR 0xF0, CHR 0x9F, CHR 0x94, CHR 0xA7] @ '' ENV DEBIAN_FRONTEND=noninteractive''),
      StepRun (''echo DEBIAN_FRONTEND=noninteractive >> /etc/environment''),
      StepEcho ([CHR 0xF0, CHR 0x9F, CHR 0x93, CHR 0x81] @ '' WORKDIR /app''),
      StepRun (''mkdir -p /app''),
      StepEcho ([CHR 0xF0, CHR 0x9F, CHR 0xA7, CHR 0xB9] @ '' Cleaning up package cache''),
      StepRun (''apt-get autoremove -y''),
      StepRun (''apt-get autoclean''),
      StepRun (''apt-get clean''),
      StepEcho ([CHR 0xE2, CHR 0x9C, CHR 0x85] @ '' Container setup completed successfully'')]"

definition ubuntu_setup_script :: "sh_env \<Rightarrow> nat \<times> sh_event list" where
  "ubuntu_setup_script env = errexit_steps env ubuntu_setup_steps []"

subsection \<open>The Java 8 layer script (buildJava8Layer), run without \<open>set -e\<close>\<close>

text \<open>
  The loop \<open>for i in {1..3}\<close> around \<open>apt-get update\<close>: it leaves with \<open>break\<close> on the first
  success and sleeps 5 seconds after a failed attempt. The result is the value of
  \<open>UPDATE_SUCCESS\<close>.
\<close>

fun update_attempts :: "sh_env \<Rightarrow> nat list \<Rightarrow> sh_event list \<Rightarrow> bool \<times> sh_event list" where
  "update_attempts env [] evs = (False, evs)"
| "update_attempts env (i # rest) evs =
     (let evs1 = evs @ [Echo (''Attempt '' @ show_nat i @ '': Running apt-get update...'')];
          (st, evs2) = sh_run env apt_get_update evs1
      in if st = 0
         then (True, evs2 @ [Echo ([CHR 0xE2, CHR 0x9C, CHR 0x85] @ '' apt-get update succeeded on attempt '' @ show_nat i)])
         else
           (let evs3 = evs2 @ [Echo ([CHR 0xE2, CHR 0x9D, CHR 0x8C] @ '' Attempt '' @ show_nat i @
                          '' failed: apt-get update failed (exit code '' @ show_nat st @ '')'')];
                (st5, evs4) = sh_run env ''sleep 5'' evs3
            in update_attempts env rest evs4))"

abbreviation apt_get_install_jdk :: string where
  "apt_get_install_jdk \<equiv> ''apt-get install -y --no-install-recommends openjdk-8-jdk''"

abbreviation JAVA_HOME_PATH :: string where
  "JAVA_HOME_PATH \<equiv> ''/usr/lib/jvm/java-8-openjdk-amd64''"

text \<open>The part of the script after a successful installation; it ends with status 0.\<close>

definition java8_after_install :: "sh_env \<Rightarrow> sh_event list \<Rightarrow> nat \<times> sh_event list" where
  "java8_after_install env evs =
     (let evs1 = evs @ [Echo ([CHR 0xE2, CHR 0x9C, CHR 0x85] @ '' Java 8 installation completed successfully'')] @ [Echo ([CHR 0xF0, CHR 0x9F, CHR 0x94, CHR 0x8D] @ '' Initial Java verification...'')];
          evs2 = sh_run_or_echo env ''which java'' ''Java binary not found in PATH'' evs1;
          evs3 = sh_run_or_echo env ''ls -la /usr/lib/jvm/'' ''JVM directory not found'' evs2;
          (st, evs4) = sh_run env (''[ -d '' @ JAVA_HOME_PATH @ '' ]'') evs3;
          evs5 =
            (if st = 0
             then
               (let a = evs4 @ [Echo ([CHR 0xF0, CHR 0x9F, CHR 0x94, CHR 0xA7] @ '' ENV JAVA_HOME='' @ JAVA_HOME_PATH)];
                    (st1, b) = sh_run env (''echo JAVA_HOME='' @ JAVA_HOME_PATH @ '' >> /etc/environment'') a;
                    (st2, c) = sh_run env (''echo export JAVA_HOME='' @ JAVA_HOME_PATH @ '' >> /etc/bash.bashrc'') b;
                    d = c @ [Echo ([CHR 0xF0, CHR 0x9F, CHR 0x94, CHR 0xA7] @ '' ENV PATH='' @ JAVA_HOME_PATH @ ''/bin:$PATH'')];
                    (st3, f) = sh_run env (''echo export PATH='' @ JAVA_HOME_PATH @ ''/bin:$PATH >> /etc/bash.bashrc'') d
                in f)
             else
               (let a = evs4 @ [Echo ([CHR 0xE2, CHR 0x9A, CHR 0xA0, CHR 0xEF, CHR 0xB8, CHR 0x8F] @ ''  Warning: JAVA_HOME directory not found at '' @ JAVA_HOME_PATH)] @ [Echo ''Available JVM directories:'']
                in sh_run_or_echo env ''ls -la /usr/lib/jvm/'' ''No JVM directories found'' a));
          evs6 = evs5 @ [Echo ([CHR 0xE2, CHR 0x9C, CHR 0x85] @ '' Verifying Java installation...'')];
          evs7 = sh_run_or_echo env ''java -version'' ''Java verification failed'' evs6;
          evs8 = sh_run_or_echo env ''javac -version'' ''Javac verification failed'' evs7;
          evs9 = evs8 @ [Echo ([CHR 0xF0, CHR 0x9F, CHR 0x93, CHR 0x81] @ '' Java installation contents:'')];
          evs10 = sh_run_or_echo env ''ls -la /usr/lib/jvm/'' ''No JVM directory'' evs9;
          evs11 = sh_run_or_echo env ''ls -la /usr/bin/java*'' ''No Java binaries in /usr/bin'' evs10;
          evs12 = evs11 @ [Echo ([CHR 0xF0, CHR 0x9F, CHR 0xA7, CHR 0xB9] @ '' Cleaning up package cache'')];
          (st4, evs13) = sh_run env ''apt-get autoremove -y'' evs12;
          (st5, evs14) = sh_run env ''apt-get autoclean'' evs13;
          (st6, evs15) = sh_run env ''apt-get clean'' evs14
      in (0, evs15 @ [Echo ([CHR 0xE2, CHR 0x9C, CHR 0x85] @ '' Java 8 layer setup completed successfully'')]))"

definition java8_setup_script :: "sh_env \<Rightarrow> nat \<times> sh_event list" where
  "java8_setup_script env =
     (let evs1 = [Echo ([CHR 0xF0, CHR 0x9F, CHR 0x8C, CHR 0x90] @ '' Setting up DNS resolution...'')];
          (st1, evs2) = sh_run env ''cat > /etc/resolv.conf'' evs1;
          evs3 = evs2 @ [Echo ([CHR 0xE2, CHR 0x9C, CHR 0x85] @ '' DNS configuration written'')] @ [Echo ([CHR 0xF0, CHR 0x9F, CHR 0x94, CHR 0x8D] @ '' Testing DNS resolution...'')];
          (st2, evs4) = sh_run env ''nslookup archive.ubuntu.com'' evs3;
          evs5 = evs4 @ [Echo (if st2 = 0 then [CHR 0xE2, CHR 0x9C, CHR 0x85] @ '' DNS resolution working'' else [CHR 0xE2, CHR 0x9A, CHR 0xA0, CHR 0xEF, CHR 0xB8, CHR 0x8F] @ '' DNS test failed, but continuing...'')];
          evs6 = evs5 @ [Echo ([CHR 0xF0, CHR 0x9F, CHR 0x93, CHR 0xA6] @ '' RUN apt-get update'')];
          (UPDATE_SUCCESS, evs7) = update_attempts env [1, 2, 3] evs6
      in if \<not> UPDATE_SUCCESS
         then (1, evs7 @ [Echo ([CHR 0xE2, CHR 0x9D, CHR 0x8C] @ '' All apt-get update attempts failed'')])
         else
           (let evs8 = evs7 @ [Echo ([CHR 0xE2, CHR 0x98, CHR 0x95] @ '' RUN apt-get install -y openjdk-8-jdk'')] @ [Echo ''Setting DEBIAN_FRONTEND=noninteractive...''] @
                         [Echo ''Running apt-get install...''];
                (st3, evs9) = sh_run env apt_get_install_jdk evs8
            in if st3 = 0 then java8_after_install env evs9
               else
                 (let evs10 = evs9 @ [Echo ([CHR 0xE2, CHR 0x9D, CHR 0x8C] @ '' Java 8 installation failed (exit code '' @ show_nat st3 @ '')'')] @
                                [Echo ''Checking available packages...'']
                  in (1, sh_run_or_echo env ''apt-cache search openjdk-8'' ''Package search failed''
                           evs10))))"

section \<open>Observing a run\<close>

text \<open>The events a call appends to the trace.\<close>

definition new_events :: "world \<Rightarrow> world \<Rightarrow> event list" where
  "new_events w w' = drop (length (trace w)) (trace w')"

text \<open>
  \<open>after_archive p done evs\<close>: in the sequence \<open>evs\<close>, every removal, link creation or file
  write at the path \<open>p\<close> comes after a run of \<open>tar\<close> that returned no error (\<open>done\<close> says
  whether such a run has already been seen).
\<close>

fun after_archive :: "path \<Rightarrow> bool \<Rightarrow> event list \<Rightarrow> bool" where
  "after_archive p done [] = True"
| "after_archive p done (EvExec name args err # evs) =
     after_archive p (done \<or> (name = ''tar'' \<and> err = None)) evs"
| "after_archive p done (EvRemove q err # evs) =
     ((if q = p then done else True) \<and> after_archive p done evs)"
| "after_archive p done (EvSymlink t q err # evs) =
     ((if q = p then done else True) \<and> after_archive p done evs)"
| "after_archive p done (EvWriteFile q c err # evs) =
     ((if q = p then done else True) \<and> after_archive p done evs)"
| "after_archive p done (EvChmod q err # evs) = after_archive p done evs"
| "after_archive p done (EvSleep n # evs) = after_archive p done evs"



text \<open>The candidate files that \<open>os.Stat\<close> finds under a rootfs.\<close>

definition present_files :: "world \<Rightarrow> path \<Rightarrow> string list" where
  "present_files w containerRootfs =
     filter (\<lambda>file. case os_Stat w (Join containerRootfs file) of Inr n \<Rightarrow> True | Inl err \<Rightarrow> False)
       possibleFiles"

section \<open>Intermediate values\<close>

text \<open>
  Names for the values that the functions compute on the way, used to state what they do:
  the archive name and the link path of a base export, the arguments of its tar run, and
  the state in which tar is run; the same for a layer export.
\<close>

definition base_tar_name :: "env \<Rightarrow> world \<Rightarrow> string" where
  "base_tar_name e w = ''lxc-ubuntu-base-'' @ format_stamp (clock e (tick w)) @ ''.tar.gz''"

definition base_link_path :: "path \<Rightarrow> path" where
  "base_link_path workDir = Join workDir ''lxc-ubuntu-latest.tar.gz''"

definition base_tar_args :: "env \<Rightarrow> path \<Rightarrow> path \<Rightarrow> world \<Rightarrow> string list" where
  "base_tar_args e workDir containerPath w =
     [''-czf'', Join workDir (base_tar_name e w), ''-C'', Join containerPath ''rootfs'', ''.'']"

definition base_pre_tar :: "env \<Rightarrow> LXCBuilder \<Rightarrow> path \<Rightarrow> path \<Rightarrow> world \<Rightarrow> world" where
  "base_pre_tar e l workDir containerPath w =
     (let w1 = log e l (U_package @
                 '' Exporting base container as Proxmox-compatible tar.gz template...'') w;
          tarGzPath = Join workDir (base_tar_name e w1);
          (merr, w2) = createProxmoxMetadata e l (Join containerPath ''rootfs'') w1;
          w3 = (case merr of
                  Some err \<Rightarrow> log e l (''Warning: failed to create metadata: '' @ error_text err) w2
                | None \<Rightarrow> w2)
      in log e l (''Creating Proxmox-compatible tar.gz archive: '' @ tarGzPath) w3)"

definition layer_tar_name :: "env \<Rightarrow> string \<Rightarrow> world \<Rightarrow> string" where
  "layer_tar_name e containerName w =
     ''lxc-'' @ containerName @ ''-layer-'' @ format_stamp (clock e (tick w)) @ ''.tar.gz''"

definition layer_link_path :: "path \<Rightarrow> string \<Rightarrow> path" where
  "layer_link_path workDir containerName =
     Join workDir (''lxc-'' @ containerName @ ''-layer-latest.tar.gz'')"

definition layer_tar_args :: "env \<Rightarrow> path \<Rightarrow> path \<Rightarrow> string \<Rightarrow> world \<Rightarrow> string list" where
  "layer_tar_args e workDir containerPath containerName w =
     [''-czf'', Join workDir (layer_tar_name e containerName w), ''-C'', Join containerPath ''rootfs''] @
     present_files w (Join containerPath ''rootfs'')"

definition layer_pre_tar :: "env \<Rightarrow> LXCBuilder \<Rightarrow> path \<Rightarrow> world \<Rightarrow> world" where
  "layer_pre_tar e l containerPath w =
     snd (filesToTar_loop e l (Join containerPath ''rootfs'') possibleFiles []
       (log e l (U_glass @ '' Creating layer diff archive with Java-specific files...'')
          (log e l (U_package @ '' Exporting layered container with diff-only approach...'') w)))"






text \<open>The events of the Java 8 script before its update loop.\<close>

definition java8_before_update :: "sh_env \<Rightarrow> sh_event list" where
  "java8_before_update env =
     (let evs1 = [Echo ([CHR 0xF0, CHR 0x9F, CHR 0x8C, CHR 0x90] @ '' Setting up DNS resolution...'')];
          (st1, evs2) = sh_run env ''cat > /etc/resolv.conf'' evs1;
          evs3 = evs2 @ [Echo ([CHR 0xE2, CHR 0x9C, CHR 0x85] @ '' DNS configuration written'')] @ [Echo ([CHR 0xF0, CHR 0x9F, CHR 0x94, CHR 0x8D] @ '' Testing DNS resolution...'')];
          (st2, evs4) = sh_run env ''nslookup archive.ubuntu.com'' evs3;
          evs5 = evs4 @ [Echo (if st2 = 0 then [CHR 0xE2, CHR 0x9C, CHR 0x85] @ '' DNS resolution working'' else [CHR 0xE2, CHR 0x9A, CHR 0xA0, CHR 0xEF, CHR 0xB8, CHR 0x8F] @ '' DNS test failed, but continuing...'')]
      in evs5 @ [Echo ([CHR 0xF0, CHR 0x9F, CHR 0x93, CHR 0xA6] @ '' RUN apt-get update'')])"

text \<open>Whether a step of a straight-line script runs the command \<open>c\<close>.\<close>

fun step_runs :: "string \<Rightarrow> sh_step \<Rightarrow> bool" where
  "step_runs c (StepEcho m) = False"
| "step_runs c (StepRun c') = (c' = c)"
| "step_runs c (StepRunOrEcho c' m) = (c' = c)"

section \<open>Concrete inputs\<close>

definition zero_draw :: "go_int \<Rightarrow> go_int \<Rightarrow> nat" where
  "zero_draw s n = 0"

definition fixed_store :: store where
  "fixed_store ident =
     (if ident = 1 then Inr \<lparr>Id = 1, Name = ''vm-one'', Description = [], Status = ''inactive'',
          Type = ''lxc'', Resources = [], IPAddress = [], UserID = 7, Port = 22\<rparr>
      else if ident = 2 then Inl (DbError ''connection refused'')
      else Inl ErrRecordNotFound)"

definition demo_clock :: clock_time where
  "demo_clock = \<lparr>year = 2025, month = 7, day = 4, hour = 9, minute = 30, second = 5, zone = ''Z''\<rparr>"

definition ok_env :: env where
  "ok_env = \<lparr>cmd_output = (\<lambda>t name args. ''ok''),
             cmd_exit = (\<lambda>t name args. Exited 0),
             cmd_effect = (\<lambda>t name args f. f),
             tar_leaves_partial = (\<lambda>t. False),
             io_fault = (\<lambda>t. False),
             archive_bytes = (\<lambda>d ms. []),
             clock = (\<lambda>t. demo_clock)\<rparr>"

definition tar_fails_env :: env where
  "tar_fails_env = \<lparr>cmd_output = (\<lambda>t name args. ''tar: write error''),
             cmd_exit = (\<lambda>t name args. if name = ''tar'' then Exited 2 else Exited 0),
             cmd_effect = (\<lambda>t name args f. f),
             tar_leaves_partial = (\<lambda>t. True),
             io_fault = (\<lambda>t. False),
             archive_bytes = (\<lambda>d ms. []),
             clock = (\<lambda>t. demo_clock)\<rparr>"

definition demo_builder :: LXCBuilder where
  "demo_builder = \<lparr>WorkDir = ''/w'', ContainerDir = ''/w/containers'', LogFile = Some ''/w/build-1.log''\<rparr>"

definition world_of :: "filesystem \<Rightarrow> world" where
  "world_of f = \<lparr>fs = f, stdout = [], logfile = [], trace = [], tick = 0\<rparr>"


definition java8_files :: filesystem where
  "java8_files =
     [(''/w/containers/ubuntu-base'', Dir),
      (''/w/containers/ubuntu-java8/rootfs/usr/lib/jvm'', Dir),
      (''/w/containers/ubuntu-java8/rootfs/etc/environment'', File ''JAVA_HOME=/usr/lib/jvm/java-8-openjdk-amd64'')]"




definition bare_files :: filesystem where
  "bare_files = [(''/w/containers/ubuntu-base'', Dir)]"

definition linked_files :: filesystem where
  "linked_files =
     [(''/w/containers/ubuntu-base'', Dir),
      (''/w/lxc-ubuntu-latest.tar.gz'', Symlink ''lxc-ubuntu-base-20250101-000000.tar.gz''),
      (''/w/lxc-ubuntu-java8-layer-latest.tar.gz'', Symlink ''lxc-ubuntu-java8-layer-20250101-000000.tar.gz''),
      (''/w/containers/ubuntu-java8/rootfs/usr/lib/jvm'', Dir)]"

definition copying_env :: env where
  "copying_env = \<lparr>cmd_output = (\<lambda>t name args. []),
             cmd_exit = (\<lambda>t name args. Exited 0),
             cmd_effect = (\<lambda>t name args f.
                if name = ''cp''
                then AList.update ''/w/containers/ubuntu-java8/config''
                       (File (''lxc.uts.name = ubuntu-base'' @ nl @ ''lxc.arch = amd64'' @ nl)) f
                else f),
             tar_leaves_partial = (\<lambda>t. False),
             io_fault = (\<lambda>t. False),
             archive_bytes = (\<lambda>d ms. []),
             clock = (\<lambda>t. demo_clock)\<rparr>"


definition update_fails_once :: sh_env where
  "update_fails_once c k = (if c = apt_get_update \<and> k = 0 then 100 else 0)"

section \<open>Verified properties\<close>

subsection \<open>Random numbers\<close>

lemma sint_of_nat_small:
  assumes "n < 2 ^ 63"
  shows "sint (of_nat n :: go_int) = int n"
proof -
  have "sint (of_nat n :: go_int) = signed_take_bit 63 (int n)"
    by (simp add: signed_of_nat)
  also have "\<dots> = int n"
    using assms by (intro signed_take_bit_int_eq_self) auto
  finally show ?thesis .
qed

lemma digits_loop_run:
  assumes "n < 2 ^ 63" "Suc k \<le> n"
  shows "digits_loop (of_nat (Suc k)) (of_nat n) (of_nat (10 ^ k)) (of_nat (2 * 10 ^ k - 1))
           = (of_nat (10 ^ (n - 1)), of_nat (2 * 10 ^ (n - 1) - 1))"
  using assms
proof (induction "n - Suc k" arbitrary: k)
  case 0
  then have eq: "n = Suc k" by simp
  have "\<not> ((of_nat (Suc k) :: go_int) <s of_nat n)"
    by (simp add: eq word_sless_alt)
  then show ?case
    by (subst digits_loop.simps) (simp add: eq)
next
  case (Suc d)
  then have lt: "Suc k < n" by simp
  have sk: "sint (of_nat (Suc k) :: go_int) = int (Suc k)"
    using lt Suc.prems(1) by (intro sint_of_nat_small) simp
  have sn: "sint (of_nat n :: go_int) = int n"
    using Suc.prems(1) by (rule sint_of_nat_small)
  have cond: "(of_nat (Suc k) :: go_int) <s of_nat n"
    using lt by (simp only: word_sless_alt sk sn of_nat_less_iff)
  have step1: "(of_nat (Suc k) :: go_int) + 1 = of_nat (Suc (Suc k))"
    by simp
  have step2: "(of_nat (10 ^ k) :: go_int) * 10 = of_nat (10 ^ Suc k)"
    by simp
  have ar: "\<And>x::nat. 1 \<le> x \<Longrightarrow> 2 * (10 * x) - 1 = (2 * x - 1) * 10 + 9"
    by arith
  have "2 * 10 ^ Suc k - 1 = (2 * 10 ^ k - 1) * 10 + (9::nat)"
    using ar [of "10 ^ k"] by simp
  then have step3: "(of_nat (2 * 10 ^ k - 1) :: go_int) * 10 + 9 = of_nat (2 * 10 ^ Suc k - 1)"
    by (simp only: of_nat_add of_nat_mult) simp
  have ih: "digits_loop (of_nat (Suc (Suc k))) (of_nat n) (of_nat (10 ^ Suc k)) (of_nat (2 * 10 ^ Suc k - 1))
           = (of_nat (10 ^ (n - 1)), of_nat (2 * 10 ^ (n - 1) - 1))"
    using Suc.hyps(2) lt Suc.prems(1) by (intro Suc.hyps(1)) auto
  show ?case
    by (subst digits_loop.simps) (simp only: cond if_True step1 step2 step3 ih)
qed


lemma n_less_pow10: "(n::nat) < 10 ^ n"
  by (induction n) auto

lemma pow10_pred_le: "0 < n \<Longrightarrow> (10::nat) * 10 ^ (n - 1) = 10 ^ n"
  by (cases n) auto

lemma Intn_in_range:
  assumes "0 < m" "m < 2 ^ 63"
  shows "Intn r (of_nat m) = Inr (of_nat (r mod m))"
proof -
  have "sint (of_nat m :: go_int) = int m"
    using assms(2) by (rule sint_of_nat_small)
  then show ?thesis
    using assms(1) by (simp add: Intn_def word_sle_eq)
qed

lemma GenerateRandomNumber_value:
  fixes n :: nat
  assumes pos: "0 < n" and fits: "(10::nat) ^ n < 2 ^ 63"
  shows "GenerateRandomNumber r (of_nat n) = Inr (of_nat (10 ^ (n - 1) + r mod 10 ^ (n - 1)))"
proof -
  let ?m = "(10::nat) ^ (n - 1)"
  have nlt: "n < 2 ^ 63"
    using n_less_pow10 [of n] fits by linarith
  have sn: "sint (of_nat n :: go_int) = int n"
    using nlt by (rule sint_of_nat_small)
  have notle: "\<not> ((of_nat n :: go_int) \<le>s 0)"
    using pos by (simp add: word_sle_eq sn)
  have loop: "digits_loop 1 (of_nat n) 1 1 = (of_nat ?m, of_nat (2 * ?m - 1))"
    using digits_loop_run [of n 0] nlt pos by simp
  have mlt: "?m < 2 ^ 63"
    using pow10_pred_le [OF pos] fits by linarith
  have diff: "(of_nat (2 * ?m - 1) :: go_int) - of_nat ?m + 1 = of_nat ?m"
  proof -
    have "2 * ?m - 1 = ?m + (?m - 1)" by simp
    then have "(of_nat (2 * ?m - 1) :: go_int) = of_nat ?m + of_nat (?m - 1)"
      by (simp only: of_nat_add)
    moreover have "(of_nat (?m - 1) :: go_int) + 1 = of_nat ?m"
      by (metis Suc_pred' add.commute of_nat_Suc pos_add_strict zero_less_numeral zero_less_power plus_1_eq_Suc)
    ultimately show ?thesis by simp
  qed
  have intn: "Intn r (of_nat ?m) = Inr (of_nat (r mod ?m))"
    using mlt by (intro Intn_in_range) simp_all
  show ?thesis
    by (simp only: GenerateRandomNumber_def notle if_False loop prod.case diff intn
        sum.case of_nat_add)
qed

text \<open>
  Claim C9. GenerateRandomNumber returns 0 for every length that is zero or negative. For a
  positive length whose power of ten fits the int type it returns (without panicking) a
  number of exactly that many decimal digits: a value from \<open>10 ^ (length - 1)\<close> to
  \<open>10 ^ length - 1\<close>. (\<open>GenerateRandomNumber_value\<close> gives the value itself; its leading
  digit is always 1, because \<open>maximum\<close> starts at 1.)
\<close>

theorem GenerateRandomNumber_digits:
  "(len \<le>s 0 \<longrightarrow> GenerateRandomNumber r len = Inr 0) \<and>
   (0 <s len \<and> (10::int) ^ nat (sint len) < 2 ^ 63 \<longrightarrow>
      (\<exists>v. GenerateRandomNumber r len = Inr v \<and>
           10 ^ (nat (sint len) - 1) \<le> sint v \<and> sint v \<le> 10 ^ nat (sint len) - 1))"
proof (intro conjI impI)
  assume "len \<le>s 0"
  then show "GenerateRandomNumber r len = Inr 0"
    by (simp add: GenerateRandomNumber_def)
next
  assume h: "0 <s len \<and> (10::int) ^ nat (sint len) < 2 ^ 63"
  define n where "n = nat (sint len)"
  let ?m = "(10::nat) ^ (n - 1)"
  have spos: "0 < sint len"
    using h by (simp add: word_sless_alt)
  then have npos: "0 < n" by (simp add: n_def)
  have len_eq: "len = of_nat n"
    using spos by (simp add: n_def)
  have "int (10 ^ n) < 2 ^ 63"
    using h by (simp add: n_def)
  then have fits: "(10::nat) ^ n < 2 ^ 63"
    by (metis of_nat_less_numeral_power_cancel_iff)
  have val: "GenerateRandomNumber r len = Inr (of_nat (?m + r mod ?m))"
    unfolding len_eq using npos fits by (rule GenerateRandomNumber_value)
  have ten: "10 * ?m = 10 ^ n"
    using npos by (rule pow10_pred_le)
  have "r mod ?m < ?m" by simp
  then have up: "?m + r mod ?m < 10 ^ n"
    using ten by linarith
  then have "?m + r mod ?m < 2 ^ 63"
    using fits by linarith
  then have sv: "sint (of_nat (?m + r mod ?m) :: go_int) = int (?m + r mod ?m)"
    by (rule sint_of_nat_small)
  have lo: "(10::int) ^ (n - 1) \<le> int (?m + r mod ?m)"
    by simp
  have hi: "int (?m + r mod ?m) \<le> 10 ^ n - 1"
  proof -
    have "int (?m + r mod ?m) < int (10 ^ n)"
      using up by (simp only: of_nat_less_iff)
    then show ?thesis by simp
  qed
  show "\<exists>v. GenerateRandomNumber r len = Inr v \<and>
           10 ^ (nat (sint len) - 1) \<le> sint v \<and> sint v \<le> 10 ^ nat (sint len) - 1"
    using val sv lo hi unfolding n_def [symmetric] by (intro exI [of _ "of_nat (?m + r mod ?m)"]) simp
qed

theorem GenerateRandomNumber_digits_witness:
  "(- 2 :: go_int) \<le>s 0 \<and> GenerateRandomNumber 12345 (- 2) = Inr 0 \<and>
   (0 :: go_int) <s 3 \<and> (10::int) ^ nat (sint (3 :: go_int)) < 2 ^ 63 \<and>
   (\<exists>v. GenerateRandomNumber 12345 3 = Inr v \<and>
      10 ^ (nat (sint (3 :: go_int)) - 1) \<le> sint v \<and> sint v \<le> 10 ^ nat (sint (3 :: go_int)) - 1)"
  using GenerateRandomNumber_digits [of "- 2" 12345] GenerateRandomNumber_digits [of 3 12345]
  by (simp add: word_sle_eq word_sless_alt)

lemma sint_range_sum:
  fixes a :: go_int
  assumes "- (2 ^ 63) \<le> sint a + int k" "sint a + int k < 2 ^ 63" "k < 2 ^ 63"
  shows "sint (a + of_nat k) = sint a + int k"
proof -
  have "sint (a + of_nat k) = signed_take_bit 63 (sint a + sint (of_nat k :: go_int))"
    by (simp add: sint_word_ariths)
  also have "sint (of_nat k :: go_int) = int k"
    using assms(3) by (rule sint_of_nat_small)
  also have "signed_take_bit 63 (sint a + int k) = sint a + int k"
    using assms(1,2) by (intro signed_take_bit_int_eq_self) auto
  finally show ?thesis .
qed

lemma range_width:
  fixes a b :: go_int
  assumes "a <s b" "sint b - sint a < 2 ^ 63 - 1"
  shows "b - a + 1 = of_nat (nat (sint b - sint a + 1))"
proof -
  have "sint a < sint b" using assms(1) by (simp add: word_sless_alt)
  then have "int (nat (sint b - sint a + 1)) = sint b - sint a + 1" by simp
  then have "(of_nat (nat (sint b - sint a + 1)) :: go_int) = of_int (sint b - sint a + 1)"
    by (metis of_int_of_nat_eq)
  also have "\<dots> = b - a + 1" by simp
  finally show ?thesis by simp
qed

text \<open>
  Claim C10, amended. GenerateRandomNumberInRange returns \<open>min\<close> whenever \<open>min >= max\<close>.
  Otherwise, when \<open>max - min + 1\<close> does not overflow the int type, it returns a value of
  the closed interval from \<open>min\<close> to \<open>max\<close>. For every positive seed the result does
  not depend on the clock: two calls with the same arguments return equal results.
\<close>

theorem GenerateRandomNumberInRange_bounds:
  "(max_v \<le>s min_v \<longrightarrow> GenerateRandomNumberInRange draw now min_v max_v seed = Inr min_v) \<and>
   (min_v <s max_v \<and> sint max_v - sint min_v < 2 ^ 63 - 1 \<longrightarrow>
      (\<exists>v. GenerateRandomNumberInRange draw now min_v max_v seed = Inr v \<and>
           min_v \<le>s v \<and> v \<le>s max_v)) \<and>
   (0 <s seed \<longrightarrow>
      GenerateRandomNumberInRange draw now min_v max_v seed =
      GenerateRandomNumberInRange draw now' min_v max_v seed)"
proof (intro conjI impI)
  assume "max_v \<le>s min_v"
  then show "GenerateRandomNumberInRange draw now min_v max_v seed = Inr min_v"
    by (simp add: GenerateRandomNumberInRange_def)
next
  assume "0 <s seed"
  then show "GenerateRandomNumberInRange draw now min_v max_v seed =
      GenerateRandomNumberInRange draw now' min_v max_v seed"
    by (simp add: GenerateRandomNumberInRange_def)
next
  assume h: "min_v <s max_v \<and> sint max_v - sint min_v < 2 ^ 63 - 1"
  define d where "d = nat (sint max_v - sint min_v + 1)"
  define s where "s = (if 0 <s seed then seed else now)"
  have lt: "sint min_v < sint max_v"
    using h by (simp add: word_sless_alt)
  have dpos: "0 < d" using lt by (simp add: d_def)
  have dint: "int d = sint max_v - sint min_v + 1" using lt by (simp add: d_def)
  have dlt: "d < 2 ^ 63"
  proof -
    have "int d < 2 ^ 63" using h dint by linarith
    then show ?thesis by (metis of_nat_less_numeral_power_cancel_iff)
  qed
  have width: "max_v - min_v + 1 = of_nat d"
    using h unfolding d_def by (intro range_width) auto
  define k where "k = draw s (of_nat d) mod d"
  have intn: "Intn (draw s (of_nat d)) (of_nat d) = Inr (of_nat k)"
    unfolding k_def using dpos dlt by (rule Intn_in_range)
  have notle: "\<not> max_v \<le>s min_v"
    using lt by (simp add: word_sle_eq)
  have val: "GenerateRandomNumberInRange draw now min_v max_v seed = Inr (min_v + of_nat k)"
    using notle by (simp add: GenerateRandomNumberInRange_def Let_def width s_def [symmetric] intn)
  have klt: "k < d" unfolding k_def using dpos by simp
  then have kint: "int k \<le> sint max_v - sint min_v"
    using dint by linarith
  have lo: "- (2 ^ 63) \<le> sint min_v" using sint_greater_eq [of min_v] by simp
  have hi: "sint max_v < 2 ^ 63" using sint_less [of max_v] by simp
  have sv: "sint (min_v + of_nat k) = sint min_v + int k"
    using lo hi kint klt dlt by (intro sint_range_sum) auto
  show "\<exists>v. GenerateRandomNumberInRange draw now min_v max_v seed = Inr v \<and>
           min_v \<le>s v \<and> v \<le>s max_v"
    using val sv kint by (intro exI [of _ "min_v + of_nat k"]) (simp add: word_sle_eq)
qed

theorem GenerateRandomNumberInRange_bounds_witness:
  "(5 :: go_int) \<le>s 9 \<and> GenerateRandomNumberInRange zero_draw 0 9 5 1 = Inr 9 \<and>
   (5 :: go_int) <s 9 \<and> sint (9 :: go_int) - sint (5 :: go_int) < 2 ^ 63 - 1 \<and>
   (\<exists>v. GenerateRandomNumberInRange zero_draw 0 5 9 1 = Inr v \<and> 5 \<le>s v \<and> v \<le>s 9) \<and>
   (0 :: go_int) <s 1 \<and>
   GenerateRandomNumberInRange zero_draw 0 5 9 1 = GenerateRandomNumberInRange zero_draw 77 5 9 1"
proof -
  have c1: "(5 :: go_int) \<le>s 9"
    by (simp add: word_sle_eq)
  have c2: "(5 :: go_int) <s 9 \<and> sint (9 :: go_int) - sint (5 :: go_int) < 2 ^ 63 - 1"
    by (simp add: word_sless_alt)
  have c3: "(0 :: go_int) <s 1"
    by (simp add: word_sless_alt)
  show ?thesis
    using c1 c2 c3 GenerateRandomNumberInRange_bounds [of 5 9 zero_draw 0 1 77]
      GenerateRandomNumberInRange_bounds [of 9 5 zero_draw 0 1 77]
    by blast
qed

text \<open>
  Claim C10 as stated fails where \<open>max - min + 1\<close> overflows: with \<open>min = 0\<close> and
  \<open>max\<close> the largest int, \<open>min < max\<close> holds, the argument of \<open>Intn\<close> wraps around to
  the smallest int, and the call panics instead of returning a value of the interval.
\<close>

theorem GenerateRandomNumberInRange_overflow_panics:
  "GenerateRandomNumberInRange zero_draw 0 0 9223372036854775807 1
     = Inl (Panic ''invalid argument to Intn'')"
  by (simp add: GenerateRandomNumberInRange_def Intn_def word_sle_eq word_sless_alt)

subsection \<open>Repository\<close>

text \<open>
  Claim C8. VirtualMachineRepo.Get returns a nil entity and a nil error when the store
  reports record-not-found; any other database error is returned with a nil entity; a row
  that is found is returned with a nil error.
\<close>

theorem Get_not_found_is_nil:
  "(db ident = Inl ErrRecordNotFound \<longrightarrow> Get db ident = (None, None)) \<and>
   (\<forall>err. db ident = Inl err \<and> err \<noteq> ErrRecordNotFound \<longrightarrow> Get db ident = (None, Some err)) \<and>
   (\<forall>vm. db ident = Inr vm \<longrightarrow> Get db ident = (Some vm, None))"
  by (simp add: Get_def)

theorem Get_not_found_is_nil_witness:
  "fixed_store 3 = Inl ErrRecordNotFound \<and> Get fixed_store 3 = (None, None) \<and>
   fixed_store 2 = Inl (DbError ''connection refused'') \<and>
   DbError ''connection refused'' \<noteq> ErrRecordNotFound \<and>
   Get fixed_store 2 = (None, Some (DbError ''connection refused''))"
  using Get_not_found_is_nil [of fixed_store 3] Get_not_found_is_nil [of fixed_store 2]
  by (simp add: fixed_store_def)

subsection \<open>The image builder: helper lemmas\<close>

lemma log_frame [simp]:
  "fs (log e l m w) = fs w" "trace (log e l m w) = trace w" "tick (log e l m w) = tick w"
  by (simp_all add: log_def Let_def)

lemma log_stdout: "stdout (log e l m w) = stdout w @ [''['' @ format_hms (clock e (tick w)) @ ''] '' @ m @ nl]"
  by (simp add: log_def Let_def)

lemma log_logfile:
  "logfile (log e l m w) =
     (if LogFile l \<noteq> None then logfile w @ [''['' @ format_hms (clock e (tick w)) @ ''] '' @ m @ nl]
      else logfile w)"
  by (simp add: log_def Let_def)

lemma CombinedOutput_result [simp]:
  "fst (CombinedOutput e name args w) =
     (captured e (tick w) name args, exit_error (cmd_exit e (tick w) name args))"
  by (simp add: CombinedOutput_def Let_def)

lemma CombinedOutput_frame [simp]:
  "stdout (snd (CombinedOutput e name args w)) = stdout w"
  "logfile (snd (CombinedOutput e name args w)) = logfile w"
  "tick (snd (CombinedOutput e name args w)) = Suc (tick w)"
  "trace (snd (CombinedOutput e name args w)) =
     trace w @ [EvExec name args (exit_error (cmd_exit e (tick w) name args))]"
  "fs (snd (CombinedOutput e name args w)) = exec_effect e (tick w) name args (fs w)"
  by (simp_all add: CombinedOutput_def Let_def)

lemma runCommand_err [simp]:
  "fst (runCommand e l name args w) = exit_error (cmd_exit e (tick w) name args)"
  by (simp add: runCommand_def Let_def split_def)

lemma runCommand_frame [simp]:
  "tick (snd (runCommand e l name args w)) = Suc (tick w)"
  "trace (snd (runCommand e l name args w)) =
     trace w @ [EvExec name args (exit_error (cmd_exit e (tick w) name args))]"
  "fs (snd (runCommand e l name args w)) = exec_effect e (tick w) name args (fs w)"
  by (simp_all add: runCommand_def Let_def split_def)

lemma os_WriteFile_frame [simp]:
  "tick (snd (os_WriteFile e p c w)) = Suc (tick w)"
  "trace (snd (os_WriteFile e p c w)) = trace w @ [EvWriteFile p c (fst (os_WriteFile e p c w))]"
  "stdout (snd (os_WriteFile e p c w)) = stdout w"
  "logfile (snd (os_WriteFile e p c w)) = logfile w"
  by (simp_all add: os_WriteFile_def Let_def)

lemma os_WriteFile_lookup:
  "map_of (fs (snd (os_WriteFile e p c w))) q =
     (if fst (os_WriteFile e p c w) = None \<and> q = p then Some (File c) else map_of (fs w) q)"
  by (simp add: os_WriteFile_def Let_def update_conv')

lemma os_WriteFile_other [simp]:
  "q \<noteq> p \<Longrightarrow> map_of (fs (snd (os_WriteFile e p c w))) q = map_of (fs w) q"
  by (simp add: os_WriteFile_lookup)

lemma os_Remove_frame [simp]:
  "tick (snd (os_Remove e p w)) = Suc (tick w)"
  "trace (snd (os_Remove e p w)) = trace w @ [EvRemove p (fst (os_Remove e p w))]"
  "stdout (snd (os_Remove e p w)) = stdout w"
  "logfile (snd (os_Remove e p w)) = logfile w"
  by (simp_all add: os_Remove_def Let_def)

lemma os_Remove_other [simp]:
  "q \<noteq> p \<Longrightarrow> map_of (fs (snd (os_Remove e p w))) q = map_of (fs w) q"
  by (simp add: os_Remove_def Let_def delete_conv')

lemma os_Symlink_frame [simp]:
  "tick (snd (os_Symlink e t p w)) = Suc (tick w)"
  "trace (snd (os_Symlink e t p w)) = trace w @ [EvSymlink t p (fst (os_Symlink e t p w))]"
  "stdout (snd (os_Symlink e t p w)) = stdout w"
  "logfile (snd (os_Symlink e t p w)) = logfile w"
  by (simp_all add: os_Symlink_def Let_def)

lemma os_Symlink_other [simp]:
  "q \<noteq> p \<Longrightarrow> map_of (fs (snd (os_Symlink e t p w))) q = map_of (fs w) q"
  by (simp add: os_Symlink_def Let_def update_conv')

lemma os_Symlink_done:
  "fst (os_Symlink e t p w) = None \<Longrightarrow> map_of (fs (snd (os_Symlink e t p w))) p = Some (Symlink t)"
  by (simp add: os_Symlink_def Let_def update_conv' split: if_splits)

lemma tar_effect_other:
  "args = flag # out # rest \<Longrightarrow> q \<noteq> out \<Longrightarrow> map_of (tar_effect e t args ok f) q = map_of f q"
  by (auto simp add: tar_effect_def update_conv' split: list.splits)


lemma exec_tar_other:
  "q \<noteq> out \<Longrightarrow> map_of (exec_effect e t ''tar'' (flag # out # rest) f) q = map_of f q"
  by (simp add: exec_effect_def tar_effect_other split: proc_exit.splits)


lemma strings_differ_at_end:
  "x \<noteq> [] \<Longrightarrow> y \<noteq> [] \<Longrightarrow> last x \<noteq> last y \<Longrightarrow> a @ x \<noteq> b @ y"
  by (metis last_appendR)

lemma Join_same_dir: "Join d a = Join d b \<longleftrightarrow> a = b"
  by (simp add: Join_def)

lemma length_format_stamp [simp]: "length (format_stamp t) = 15"
  by (simp add: format_stamp_def pad2_def pad4_def)

lemma stamp_not_latest: "format_stamp t @ ''.tar.gz'' \<noteq> ''latest.tar.gz''"
proof
  assume "format_stamp t @ ''.tar.gz'' = ''latest.tar.gz''"
  then have "length (format_stamp t @ ''.tar.gz'') = length ''latest.tar.gz''"
    by (rule arg_cong)
  then show False by simp
qed


lemma digit_not_slash: "digit n \<noteq> CHR ''/''"
proof -
  have "n mod 10 < 10" by simp
  then have "n mod 10 = 0 \<or> n mod 10 = 1 \<or> n mod 10 = 2 \<or> n mod 10 = 3 \<or> n mod 10 = 4 \<or>
      n mod 10 = 5 \<or> n mod 10 = 6 \<or> n mod 10 = 7 \<or> n mod 10 = 8 \<or> n mod 10 = 9"
    by arith
  then show ?thesis
    by (auto simp add: digit_def)
qed

lemma stamp_no_slash: "CHR ''/'' \<notin> set (format_stamp t)"
  using digit_not_slash [symmetric] by (auto simp add: format_stamp_def pad2_def pad4_def)

lemma last_Join: "b \<noteq> [] \<Longrightarrow> last (Join a b) = last b"
  by (simp add: Join_def)

lemma Join_ends_differ:
  "b \<noteq> [] \<Longrightarrow> b' \<noteq> [] \<Longrightarrow> last b \<noteq> last b' \<Longrightarrow> Join a b \<noteq> Join a' b'"
  by (metis last_Join)

lemma base_paths_differ [simp]:
  "Join (Join (Join cp ''rootfs'') ''etc'') ''os-release'' \<noteq> base_link_path wd"
  "Join (Join (Join cp ''rootfs'') ''etc'') ''lsb-release'' \<noteq> base_link_path wd"
  "Join wd (base_tar_name e w) \<noteq> base_link_path wd"
  "base_link_path wd \<noteq> Join wd (base_tar_name e w)"
  "base_link_path wd \<noteq> Join (Join (Join cp ''rootfs'') ''etc'') ''os-release''"
  "base_link_path wd \<noteq> Join (Join (Join cp ''rootfs'') ''etc'') ''lsb-release''"
  by (simp_all add: Join_ends_differ Join_same_dir base_link_path_def base_tar_name_def)

lemma createProxmoxMetadata_other:
  "q \<noteq> Join (Join r ''etc'') ''os-release'' \<Longrightarrow> q \<noteq> Join (Join r ''etc'') ''lsb-release'' \<Longrightarrow>
   map_of (fs (snd (createProxmoxMetadata e l r w))) q = map_of (fs w) q"
  by (simp add: createProxmoxMetadata_def Let_def split_def split: option.splits)

lemma createProxmoxMetadata_events:
  "\<exists>evs. trace (snd (createProxmoxMetadata e l r w)) = trace w @ evs \<and>
     (\<forall>ev \<in> set evs. \<exists>c err. ev = EvWriteFile (Join (Join r ''etc'') ''os-release'') c err \<or>
                              ev = EvWriteFile (Join (Join r ''etc'') ''lsb-release'') c err)"
  by (auto simp add: createProxmoxMetadata_def Let_def split_def split: option.splits)

lemma createProxmoxMetadata_out [simp]:
  "stdout (snd (createProxmoxMetadata e l r w)) =
     stdout (log e l (U_memo @ '' Creating Proxmox metadata...'') w)"
  "logfile (snd (createProxmoxMetadata e l r w)) =
     logfile (log e l (U_memo @ '' Creating Proxmox metadata...'') w)"
  by (simp_all add: createProxmoxMetadata_def Let_def split_def split: option.splits)

lemma after_archive_skip_writes:
  "(\<forall>ev \<in> set xs. \<exists>q c err. ev = EvWriteFile q c err \<and> q \<noteq> p) \<Longrightarrow>
   after_archive p d (xs @ ys) = after_archive p d ys"
  by (induction xs) auto

lemma createProxmoxMetadata_trace:
  assumes "p \<noteq> Join (Join r ''etc'') ''os-release''" "p \<noteq> Join (Join r ''etc'') ''lsb-release''"
  shows "\<exists>evs. trace (snd (createProxmoxMetadata e l r w)) = trace w @ evs \<and>
     (\<forall>ys. after_archive p d (evs @ ys) = after_archive p d ys) \<and>
     (\<forall>ev \<in> set evs. \<exists>q c err. ev = EvWriteFile q c err)"
proof -
  obtain evs where t: "trace (snd (createProxmoxMetadata e l r w)) = trace w @ evs"
    and w: "\<forall>ev \<in> set evs. \<exists>c err. ev = EvWriteFile (Join (Join r ''etc'') ''os-release'') c err \<or>
                              ev = EvWriteFile (Join (Join r ''etc'') ''lsb-release'') c err"
    using createProxmoxMetadata_events by blast
  have "\<forall>ev \<in> set evs. \<exists>q c err. ev = EvWriteFile q c err \<and> q \<noteq> p"
    using w assms by blast
  then have "\<forall>ys. after_archive p d (evs @ ys) = after_archive p d ys"
    using after_archive_skip_writes by blast
  moreover have "\<forall>ev \<in> set evs. \<exists>q c err. ev = EvWriteFile q c err"
    using w by blast
  ultimately show ?thesis using t by blast
qed

lemma base_pre_tar_lookup:
  "q \<noteq> Join (Join (Join cp ''rootfs'') ''etc'') ''os-release'' \<Longrightarrow>
   q \<noteq> Join (Join (Join cp ''rootfs'') ''etc'') ''lsb-release'' \<Longrightarrow>
   map_of (fs (base_pre_tar e l wd cp w)) q = map_of (fs w) q"
  by (simp add: base_pre_tar_def Let_def split_def createProxmoxMetadata_other split: option.splits)

lemma base_pre_tar_trace:
  assumes "p \<noteq> Join (Join (Join cp ''rootfs'') ''etc'') ''os-release''"
    "p \<noteq> Join (Join (Join cp ''rootfs'') ''etc'') ''lsb-release''"
  shows "\<exists>evs. trace (base_pre_tar e l wd cp w) = trace w @ evs \<and>
     (\<forall>ys. after_archive p d (evs @ ys) = after_archive p d ys) \<and>
     (\<forall>ev \<in> set evs. \<exists>q c err. ev = EvWriteFile q c err)"
proof -
  have "trace (base_pre_tar e l wd cp w) =
      trace (snd (createProxmoxMetadata e l (Join cp ''rootfs'')
        (log e l (U_package @ '' Exporting base container as Proxmox-compatible tar.gz template...'') w)))"
    by (simp add: base_pre_tar_def Let_def split_def split: option.splits)
  then show ?thesis
    using createProxmoxMetadata_trace [OF assms, of e l
        "log e l (U_package @ '' Exporting base container as Proxmox-compatible tar.gz template...'') w" d]
    by simp
qed

lemma exportBaseContainer_unfold:
  "exportBaseContainer e l wd cp w =
     (let w4 = base_pre_tar e l wd cp w;
          tarGzName = base_tar_name e w;
          (terr, w5) = runCommand e l ''tar'' (base_tar_args e wd cp w) w4
      in case terr of
           Some err \<Rightarrow> (Some (Wrapped ''failed to create tar.gz archive: '' err), w5)
         | None \<Rightarrow>
             (let symlinkPath = base_link_path wd;
                  (rerr, w6) = os_Remove e symlinkPath w5;
                  (serr, w7) = os_Symlink e tarGzName symlinkPath w6;
                  w8 = (case serr of
                          Some err \<Rightarrow>
                            log e l (''Warning: failed to create symlink: '' @ error_text err) w7
                        | None \<Rightarrow> w7);
                  w9 = log e l (U_check @ '' Proxmox-compatible container template exported!'') w8;
                  w10 = log e l (U_folder @ '' Archive location: '' @ Join wd tarGzName) w9;
                  w11 = log e l (U_link @ '' Latest symlink: '' @ symlinkPath) w10;
                  w12 = log e l (U_clipboard @
                          '' Usage: Copy to /var/lib/vz/template/cache/ on Proxmox'') w11
              in (None, w12)))"
  by (simp add: exportBaseContainer_def base_pre_tar_def base_tar_args_def Let_def split_def
      base_tar_name_def base_link_path_def split: option.splits)

lemma exportBaseContainer_error:
  "fst (exportBaseContainer e l wd cp w) =
     (case exit_error (cmd_exit e (tick (base_pre_tar e l wd cp w)) ''tar'' (base_tar_args e wd cp w)) of
        None \<Rightarrow> None
      | Some err \<Rightarrow> Some (Wrapped ''failed to create tar.gz archive: '' err))"
  by (simp add: exportBaseContainer_unfold Let_def split_def split: option.splits)

lemma exportBaseContainer_failed_link:
  assumes "fst (exportBaseContainer e l wd cp w) \<noteq> None"
  shows "map_of (fs (snd (exportBaseContainer e l wd cp w))) (base_link_path wd)
           = map_of (fs w) (base_link_path wd)"
proof -
  have ne: "exit_error (cmd_exit e (tick (base_pre_tar e l wd cp w)) ''tar'' (base_tar_args e wd cp w)) \<noteq> None"
    using assms by (simp add: exportBaseContainer_error split: option.splits)
  have "fs (snd (exportBaseContainer e l wd cp w)) =
      exec_effect e (tick (base_pre_tar e l wd cp w)) ''tar'' (base_tar_args e wd cp w)
        (fs (base_pre_tar e l wd cp w))"
    using ne by (auto simp add: exportBaseContainer_unfold Let_def split_def split: option.splits)
  then show ?thesis
    by (simp add: base_tar_args_def exec_tar_other base_pre_tar_lookup)
qed

lemma exportBaseContainer_order:
  "after_archive (base_link_path wd) False
     (new_events w (snd (exportBaseContainer e l wd cp w)))"
proof -
  let ?sp = "base_link_path wd"
  obtain evs where t: "trace (base_pre_tar e l wd cp w) = trace w @ evs"
    and skip: "\<forall>ys. after_archive ?sp False (evs @ ys) = after_archive ?sp False ys"
    using base_pre_tar_trace [of ?sp cp e l wd w False] by auto
  show ?thesis
    by (simp add: exportBaseContainer_unfold Let_def split_def new_events_def t skip
        split: option.splits)
qed

text \<open>The equations that evaluate \<open>os.Stat\<close> on a given table.\<close>

lemmas stat_eval =
  stat_path_def stat_walk.simps elems_def is_abs_def path_of_def ENOENT_def demo_builder_def Join_def

lemma os_Stat_log [simp]: "os_Stat (log e l m w) p = os_Stat w p"
  by (simp add: os_Stat_def)

lemma dirExists_log [simp]: "dirExists (log e l m w) p = dirExists w p"
  by (simp add: dirExists_def)


lemma filesToTar_loop_result:
  "fst (filesToTar_loop e l r files acc w) =
     acc @ filter (\<lambda>file. case os_Stat w (Join r file) of Inr n \<Rightarrow> True | Inl err \<Rightarrow> False) files"
  by (induction files arbitrary: acc w) (auto simp add: Let_def split: sum.splits)

lemma filesToTar_loop_frame [simp]:
  "fs (snd (filesToTar_loop e l r files acc w)) = fs w"
  "tick (snd (filesToTar_loop e l r files acc w)) = tick w"
  "trace (snd (filesToTar_loop e l r files acc w)) = trace w"
  by (induction files arbitrary: acc w) (auto simp add: Let_def split: sum.splits)

lemma exportLayeredContainer_fallback:
  "\<not> dirExists w (Join (ContainerDir l) ''ubuntu-base'') \<Longrightarrow>
   exportLayeredContainer e l wd cp name w =
     exportBaseContainer e l wd cp
       (log e l ''Warning: Parent layer not found, exporting full container''
          (log e l (U_package @ '' Exporting layered container with diff-only approach...'') w))"
  by (simp add: exportLayeredContainer_def Let_def)

lemma exportLayeredContainer_empty:
  assumes "dirExists w (Join (ContainerDir l) ''ubuntu-base'')"
    and "present_files w (Join cp ''rootfs'') = []"
  shows "fst (exportLayeredContainer e l wd cp name w) =
           Some (ErrorString ''no Java files found in container - Java installation may have failed'') \<and>
         fs (snd (exportLayeredContainer e l wd cp name w)) = fs w \<and>
         trace (snd (exportLayeredContainer e l wd cp name w)) = trace w"
  using assms
  by (simp add: exportLayeredContainer_def Let_def split_def filesToTar_loop_result present_files_def)

lemma layer_pre_tar_frame [simp]:
  "fs (layer_pre_tar e l cp w) = fs w"
  "tick (layer_pre_tar e l cp w) = tick w"
  "trace (layer_pre_tar e l cp w) = trace w"
  by (simp_all add: layer_pre_tar_def)

lemma exportLayeredContainer_unfold:
  assumes "dirExists w (Join (ContainerDir l) ''ubuntu-base'')"
    and "present_files w (Join cp ''rootfs'') \<noteq> []"
  shows "exportLayeredContainer e l wd cp name w =
     (let tarGzName = layer_tar_name e name w;
          (terr, w4) = runCommand e l ''tar'' (layer_tar_args e wd cp name w) (layer_pre_tar e l cp w)
      in case terr of
           Some err \<Rightarrow> (Some (Wrapped ''failed to create layer diff archive: '' err), w4)
         | None \<Rightarrow>
             (let symlinkPath = layer_link_path wd name;
                  (rerr, w5) = os_Remove e symlinkPath w4;
                  (serr, w6) = os_Symlink e tarGzName symlinkPath w5;
                  w7 = (case serr of
                          Some err \<Rightarrow>
                            log e l (''Warning: failed to create symlink: '' @ error_text err) w6
                        | None \<Rightarrow> w6);
                  w8 = createLayerMetadata e l wd name ''ubuntu-base'' tarGzName w7;
                  w9 = log e l (U_check @ '' Layer diff exported successfully!'') w8;
                  w10 = log e l (U_folder @ '' Archive location: '' @ Join wd tarGzName) w9;
                  w11 = log e l (U_link @ '' Latest symlink: '' @ symlinkPath) w10;
                  w12 = log e l (U_clipboard @
                          '' This layer contains only changes from '' @ ''ubuntu-base'') w11
              in (None, w12)))"
  using assms
  by (simp add: exportLayeredContainer_def Let_def split_def filesToTar_loop_result present_files_def
      layer_tar_name_def layer_link_path_def layer_tar_args_def layer_pre_tar_def
      split: option.splits)

lemma createLayerMetadata_frame [simp]:
  "tick (createLayerMetadata e l wd name parent archive w) = Suc (tick w)"
  "q \<noteq> Join wd (name @ ''-layer.json'') \<Longrightarrow>
     map_of (fs (createLayerMetadata e l wd name parent archive w)) q = map_of (fs w) q"
  by (simp_all add: createLayerMetadata_def Let_def split_def)

lemma createLayerMetadata_trace:
  "\<exists>c err. trace (createLayerMetadata e l wd name parent archive w) =
     trace w @ [EvWriteFile (Join wd (name @ ''-layer.json'')) c err]"
  by (simp add: createLayerMetadata_def Let_def split_def)

lemma layer_paths_differ [simp]:
  "Join wd (layer_tar_name e name w) \<noteq> layer_link_path wd name"
  "layer_link_path wd name \<noteq> Join wd (layer_tar_name e name w)"
  "Join wd (layer_tar_name e name w) \<noteq> Join wd (name @ ''-layer.json'')"
  "layer_link_path wd name \<noteq> Join wd (name @ ''-layer.json'')"
proof -
  show a: "Join wd (layer_tar_name e name w) \<noteq> layer_link_path wd name"
    using stamp_not_latest [of "clock e (tick w)"]
    by (simp add: layer_tar_name_def layer_link_path_def Join_same_dir)
  then show "layer_link_path wd name \<noteq> Join wd (layer_tar_name e name w)"
    by (rule not_sym)
  show "Join wd (layer_tar_name e name w) \<noteq> Join wd (name @ ''-layer.json'')"
    unfolding layer_tar_name_def by (rule Join_ends_differ) simp_all
  show "layer_link_path wd name \<noteq> Join wd (name @ ''-layer.json'')"
    unfolding layer_link_path_def by (rule Join_ends_differ) simp_all
qed

lemma layer_tar_args_shape:
  "layer_tar_args e wd cp name w =
     ''-czf'' # Join wd (layer_tar_name e name w) # ''-C'' # Join cp ''rootfs'' #
       present_files w (Join cp ''rootfs'')"
  by (simp add: layer_tar_args_def)

lemma exportLayeredContainer_error:
  assumes "dirExists w (Join (ContainerDir l) ''ubuntu-base'')"
    and "present_files w (Join cp ''rootfs'') \<noteq> []"
  shows "fst (exportLayeredContainer e l wd cp name w) =
     (case exit_error (cmd_exit e (tick w) ''tar'' (layer_tar_args e wd cp name w)) of
        None \<Rightarrow> None
      | Some err \<Rightarrow> Some (Wrapped ''failed to create layer diff archive: '' err))"
  by (simp add: exportLayeredContainer_unfold [OF assms] Let_def split_def split: option.splits)

lemma exportLayeredContainer_events:
  assumes "dirExists w (Join (ContainerDir l) ''ubuntu-base'')"
    and "present_files w (Join cp ''rootfs'') \<noteq> []"
  shows "\<exists>rerr serr c werr.
     new_events w (snd (exportLayeredContainer e l wd cp name w)) =
       EvExec ''tar'' (layer_tar_args e wd cp name w)
           (exit_error (cmd_exit e (tick w) ''tar'' (layer_tar_args e wd cp name w))) #
       (if exit_error (cmd_exit e (tick w) ''tar'' (layer_tar_args e wd cp name w)) = None
        then [EvRemove (layer_link_path wd name) rerr,
              EvSymlink (layer_tar_name e name w) (layer_link_path wd name) serr,
              EvWriteFile (Join wd (name @ ''-layer.json'')) c werr]
        else []) \<and>
     (serr = None \<longrightarrow> exit_error (cmd_exit e (tick w) ''tar'' (layer_tar_args e wd cp name w)) = None \<longrightarrow>
        map_of (fs (snd (exportLayeredContainer e l wd cp name w))) (layer_link_path wd name)
          = Some (Symlink (layer_tar_name e name w)))"
proof (cases "exit_error (cmd_exit e (tick w) ''tar'' (layer_tar_args e wd cp name w))")
  case (Some err)
  then show ?thesis
    by (simp add: exportLayeredContainer_unfold [OF assms] Let_def split_def new_events_def)
next
  case None
  let ?w4 = "snd (runCommand e l ''tar'' (layer_tar_args e wd cp name w) (layer_pre_tar e l cp w))"
  let ?w5 = "snd (os_Remove e (layer_link_path wd name) ?w4)"
  let ?sl = "os_Symlink e (layer_tar_name e name w) (layer_link_path wd name) ?w5"
  let ?w7 = "case fst ?sl of
               Some err \<Rightarrow> log e l (''Warning: failed to create symlink: '' @ error_text err) (snd ?sl)
             | None \<Rightarrow> snd ?sl"
  obtain c werr where m: "trace (createLayerMetadata e l wd name ''ubuntu-base'' (layer_tar_name e name w) ?w7) =
     trace ?w7 @ [EvWriteFile (Join wd (name @ ''-layer.json'')) c werr]"
    using createLayerMetadata_trace by blast
  have t7: "trace ?w7 = trace (snd ?sl)"
    by (simp split: option.splits)
  have f7: "fs ?w7 = fs (snd ?sl)"
    by (simp split: option.splits)
  have ev: "new_events w (snd (exportLayeredContainer e l wd cp name w)) =
       [EvExec ''tar'' (layer_tar_args e wd cp name w) None,
        EvRemove (layer_link_path wd name) (fst (os_Remove e (layer_link_path wd name) ?w4)),
        EvSymlink (layer_tar_name e name w) (layer_link_path wd name) (fst ?sl),
        EvWriteFile (Join wd (name @ ''-layer.json'')) c werr]"
    using None
    by (simp add: exportLayeredContainer_unfold [OF assms] Let_def split_def new_events_def m t7)
  have lk: "fst ?sl = None \<longrightarrow>
      map_of (fs (snd (exportLayeredContainer e l wd cp name w))) (layer_link_path wd name)
          = Some (Symlink (layer_tar_name e name w))"
    using None
    by (simp add: exportLayeredContainer_unfold [OF assms] Let_def split_def f7 os_Symlink_done)
  show ?thesis
    using None ev lk by auto
qed


lemma exportLayeredContainer_failed_link:
  assumes "dirExists w (Join (ContainerDir l) ''ubuntu-base'')"
    and "fst (exportLayeredContainer e l wd cp name w) \<noteq> None"
  shows "map_of (fs (snd (exportLayeredContainer e l wd cp name w))) (layer_link_path wd name)
           = map_of (fs w) (layer_link_path wd name)"
proof (cases "present_files w (Join cp ''rootfs'') = []")
  case True
  then show ?thesis
    using exportLayeredContainer_empty [OF assms(1) True] by simp
next
  case False
  have ne: "exit_error (cmd_exit e (tick w) ''tar'' (layer_tar_args e wd cp name w)) \<noteq> None"
    using assms(2) by (simp add: exportLayeredContainer_error [OF assms(1) False] split: option.splits)
  show ?thesis
    using ne
    by (auto simp add: exportLayeredContainer_unfold [OF assms(1) False] Let_def split_def
        layer_tar_args_shape exec_tar_other split: option.splits)
qed







lemma world_of_simps [simp]:
  "fs (world_of f) = f" "tick (world_of f) = 0" "trace (world_of f) = []"
  "stdout (world_of f) = []" "logfile (world_of f) = []"
  by (simp_all add: world_of_def)











subsection \<open>Building the Java 8 layer\<close>


lemma warn_frame [simp]:
  "tick (case x of None \<Rightarrow> w | Some err \<Rightarrow> log e l (m err) w) = tick w"
  "fs (case x of None \<Rightarrow> w | Some err \<Rightarrow> log e l (m err) w) = fs w"
  "trace (case x of None \<Rightarrow> w | Some err \<Rightarrow> log e l (m err) w) = trace w"
  by (cases x; simp)+



subsection \<open>An absent parent layer\<close>


lemma ok_env_simps [simp]:
  "cmd_exit ok_env t name args = Exited 0"
  "io_fault ok_env t = False"
  "clock ok_env t = demo_clock"
  "cmd_output ok_env t name args = ''ok''"
  by (simp_all add: ok_env_def)

lemma tar_fails_env_simps [simp]:
  "cmd_exit tar_fails_env t ''tar'' args = Exited 2"
  "io_fault tar_fails_env t = False"
  "clock tar_fails_env t = demo_clock"
  by (simp_all add: tar_fails_env_def)

lemma exit_error_simps [simp]:
  "exit_error (Exited 0) = None"
  "exit_error (Exited 2) = Some (ExitError 2)"
  by (simp_all add: exit_error_def)



lemma os_WriteFile_ok_env:
  "map_of (fs w) p \<noteq> Some Dir \<Longrightarrow> fst (os_WriteFile ok_env p c w) = None"
  by (simp add: os_WriteFile_def Let_def)


subsection \<open>The diff export\<close>




lemma demo_parent_exists:
  "dirExists (world_of java8_files) (Join (ContainerDir demo_builder) ''ubuntu-base'')"
  "dirExists (world_of bare_files) (Join (ContainerDir demo_builder) ''ubuntu-base'')"
  "dirExists (world_of linked_files) (Join (ContainerDir demo_builder) ''ubuntu-base'')"
  by (simp_all add: dirExists_def os_Stat_def stat_eval java8_files_def bare_files_def linked_files_def
      demo_builder_def Join_def)





subsection \<open>The latest link\<close>


















text \<open>
  Claim C4. In every export the latest link is removed or created only after a run of tar
  that returned no error: among the events of the call, every removal, link creation or
  write at the link path comes after such a run. When the export fails, the node at the
  link path is what it was before the call. This holds for the base export, for the diff
  export (parent layer on disk) and for the layered export that falls back to the base
  export.
\<close>

theorem latest_link_only_after_archive:
  "after_archive (base_link_path workDir) False
     (new_events w (snd (exportBaseContainer e l workDir containerPath w))) \<and>
   (fst (exportBaseContainer e l workDir containerPath w) \<noteq> None \<longrightarrow>
      map_of (fs (snd (exportBaseContainer e l workDir containerPath w))) (base_link_path workDir)
        = map_of (fs w) (base_link_path workDir)) \<and>
   (dirExists w (Join (ContainerDir l) ''ubuntu-base'') \<longrightarrow>
      after_archive (layer_link_path workDir containerName) False
        (new_events w (snd (exportLayeredContainer e l workDir containerPath containerName w))) \<and>
      (fst (exportLayeredContainer e l workDir containerPath containerName w) \<noteq> None \<longrightarrow>
         map_of (fs (snd (exportLayeredContainer e l workDir containerPath containerName w)))
             (layer_link_path workDir containerName)
           = map_of (fs w) (layer_link_path workDir containerName))) \<and>
   (\<not> dirExists w (Join (ContainerDir l) ''ubuntu-base'') \<longrightarrow>
      after_archive (base_link_path workDir) False
        (new_events w (snd (exportLayeredContainer e l workDir containerPath containerName w))) \<and>
      (fst (exportLayeredContainer e l workDir containerPath containerName w) \<noteq> None \<longrightarrow>
         map_of (fs (snd (exportLayeredContainer e l workDir containerPath containerName w)))
             (base_link_path workDir)
           = map_of (fs w) (base_link_path workDir)))"
proof (intro conjI impI)
  show "after_archive (base_link_path workDir) False
     (new_events w (snd (exportBaseContainer e l workDir containerPath w)))"
    by (rule exportBaseContainer_order)
next
  assume "fst (exportBaseContainer e l workDir containerPath w) \<noteq> None"
  then show "map_of (fs (snd (exportBaseContainer e l workDir containerPath w))) (base_link_path workDir)
        = map_of (fs w) (base_link_path workDir)"
    by (rule exportBaseContainer_failed_link)
next
  assume parent: "dirExists w (Join (ContainerDir l) ''ubuntu-base'')"
  show "after_archive (layer_link_path workDir containerName) False
        (new_events w (snd (exportLayeredContainer e l workDir containerPath containerName w)))"
  proof (cases "present_files w (Join containerPath ''rootfs'') = []")
    case True
    then show ?thesis
      using exportLayeredContainer_empty [OF parent True, of e workDir containerName]
      by (simp add: new_events_def)
  next
    case False
    then show ?thesis
      using exportLayeredContainer_events [OF parent False, of e workDir containerName]
      by auto
  qed
next
  assume parent: "dirExists w (Join (ContainerDir l) ''ubuntu-base'')"
    and "fst (exportLayeredContainer e l workDir containerPath containerName w) \<noteq> None"
  then show "map_of (fs (snd (exportLayeredContainer e l workDir containerPath containerName w)))
             (layer_link_path workDir containerName)
           = map_of (fs w) (layer_link_path workDir containerName)"
    by (rule exportLayeredContainer_failed_link)
next
  assume np: "\<not> dirExists w (Join (ContainerDir l) ''ubuntu-base'')"
  let ?w' = "log e l ''Warning: Parent layer not found, exporting full container''
          (log e l (U_package @ '' Exporting layered container with diff-only approach...'') w)"
  have eq: "exportLayeredContainer e l workDir containerPath containerName w =
      exportBaseContainer e l workDir containerPath ?w'"
    using np by (rule exportLayeredContainer_fallback)
  have ne: "new_events w (snd (exportBaseContainer e l workDir containerPath ?w')) =
      new_events ?w' (snd (exportBaseContainer e l workDir containerPath ?w'))"
    by (simp add: new_events_def)
  show "after_archive (base_link_path workDir) False
        (new_events w (snd (exportLayeredContainer e l workDir containerPath containerName w)))"
    unfolding eq ne by (rule exportBaseContainer_order)
next
  assume np: "\<not> dirExists w (Join (ContainerDir l) ''ubuntu-base'')"
    and f: "fst (exportLayeredContainer e l workDir containerPath containerName w) \<noteq> None"
  let ?w' = "log e l ''Warning: Parent layer not found, exporting full container''
          (log e l (U_package @ '' Exporting layered container with diff-only approach...'') w)"
  have eq: "exportLayeredContainer e l workDir containerPath containerName w =
      exportBaseContainer e l workDir containerPath ?w'"
    using np by (rule exportLayeredContainer_fallback)
  have "map_of (fs (snd (exportBaseContainer e l workDir containerPath ?w'))) (base_link_path workDir)
      = map_of (fs ?w') (base_link_path workDir)"
    using f unfolding eq by (rule exportBaseContainer_failed_link)
  then show "map_of (fs (snd (exportLayeredContainer e l workDir containerPath containerName w)))
             (base_link_path workDir)
           = map_of (fs w) (base_link_path workDir)"
    unfolding eq by simp
qed

theorem latest_link_only_after_archive_witness:
  "fst (exportBaseContainer tar_fails_env demo_builder ''/w'' ''/w/containers/ubuntu-base''
          (world_of linked_files)) \<noteq> None \<and>
   map_of (fs (snd (exportBaseContainer tar_fails_env demo_builder ''/w'' ''/w/containers/ubuntu-base''
                      (world_of linked_files)))) ''/w/lxc-ubuntu-latest.tar.gz''
     = Some (Symlink ''lxc-ubuntu-base-20250101-000000.tar.gz'') \<and>
   dirExists (world_of linked_files) (Join (ContainerDir demo_builder) ''ubuntu-base'') \<and>
   fst (exportLayeredContainer tar_fails_env demo_builder ''/w'' ''/w/containers/ubuntu-java8''
          ''ubuntu-java8'' (world_of linked_files)) \<noteq> None \<and>
   map_of (fs (snd (exportLayeredContainer tar_fails_env demo_builder ''/w'' ''/w/containers/ubuntu-java8''
                      ''ubuntu-java8'' (world_of linked_files)))) ''/w/lxc-ubuntu-java8-layer-latest.tar.gz''
     = Some (Symlink ''lxc-ubuntu-java8-layer-20250101-000000.tar.gz'')"
proof -
  let ?rb = "exportBaseContainer tar_fails_env demo_builder ''/w'' ''/w/containers/ubuntu-base''
               (world_of linked_files)"
  let ?rl = "exportLayeredContainer tar_fails_env demo_builder ''/w'' ''/w/containers/ubuntu-java8''
               ''ubuntu-java8'' (world_of linked_files)"
  have pb: "base_link_path ''/w'' = ''/w/lxc-ubuntu-latest.tar.gz''"
    by (simp add: base_link_path_def Join_def)
  have pl: "layer_link_path ''/w'' ''ubuntu-java8'' = ''/w/lxc-ubuntu-java8-layer-latest.tar.gz''"
    by (simp add: layer_link_path_def Join_def)
  have b1: "fst ?rb \<noteq> None"
    by (simp add: exportBaseContainer_error)
  note p = demo_parent_exists(3)
  have ne: "present_files (world_of linked_files) (Join ''/w/containers/ubuntu-java8'' ''rootfs'') \<noteq> []"
    by (simp add: present_files_def possibleFiles_def os_Stat_def stat_eval linked_files_def Join_def)
  have l1: "fst ?rl \<noteq> None"
    by (simp add: exportLayeredContainer_error [OF p ne])
  note t = latest_link_only_after_archive [of "''/w''" "world_of linked_files" tar_fails_env demo_builder
      "''/w/containers/ubuntu-base''" "''ubuntu-java8''"]
  note t' = latest_link_only_after_archive [of "''/w''" "world_of linked_files" tar_fails_env demo_builder
      "''/w/containers/ubuntu-java8''" "''ubuntu-java8''"]
  have c1: "map_of (fs (snd ?rb)) (base_link_path ''/w'')
      = map_of (fs (world_of linked_files)) (base_link_path ''/w'')"
    using t b1 by blast
  have c2: "map_of (fs (snd ?rl)) (layer_link_path ''/w'' ''ubuntu-java8'')
      = map_of (fs (world_of linked_files)) (layer_link_path ''/w'' ''ubuntu-java8'')"
    using t' p l1 by blast
  have v1: "map_of (fs (world_of linked_files)) ''/w/lxc-ubuntu-latest.tar.gz''
      = Some (Symlink ''lxc-ubuntu-base-20250101-000000.tar.gz'')"
    by (simp add: linked_files_def)
  have v2: "map_of (fs (world_of linked_files)) ''/w/lxc-ubuntu-java8-layer-latest.tar.gz''
      = Some (Symlink ''lxc-ubuntu-java8-layer-20250101-000000.tar.gz'')"
    by (simp add: linked_files_def)
  show ?thesis
    using b1 p l1 c1 c2 v1 v2 unfolding pb pl by simp
qed

subsection \<open>The process runner\<close>

text \<open>
  Claim C6. runCommand writes the "Running: ..." line and then all captured output to
  standard output and, when the log file is open, to the log file, before it returns. An
  exit status other than 0 (or a program that cannot be started) comes back as an error
  value; runCommand has no other outcome, it always returns.
\<close>

theorem runCommand_logs_then_returns:
  "stdout (snd (runCommand e l name args w)) =
     stdout w @ [running_line e (tick w) name args] @
       (if captured e (tick w) name args = [] then [] else [captured e (tick w) name args]) \<and>
   logfile (snd (runCommand e l name args w)) =
     (if LogFile l = None then logfile w
      else logfile w @ [running_line e (tick w) name args] @
       (if captured e (tick w) name args = [] then [] else [captured e (tick w) name args])) \<and>
   fst (runCommand e l name args w) =
     (case cmd_exit e (tick w) name args of
        Exited n \<Rightarrow> (if n = 0 then None else Some (ExitError n))
      | NotStarted m \<Rightarrow> Some (ExecError m))"
  by (simp add: runCommand_def Let_def split_def log_stdout log_logfile
      running_line_def exit_error_def)

theorem runCommand_logs_then_returns_witness:
  "stdout (snd (runCommand tar_fails_env demo_builder ''tar'' [''-czf'', ''/w/a.tar.gz''] (world_of []))) =
     [''[09:30:05] Running: tar -czf /w/a.tar.gz'' @ nl, ''tar: write error''] \<and>
   logfile (snd (runCommand tar_fails_env demo_builder ''tar'' [''-czf'', ''/w/a.tar.gz''] (world_of []))) =
     [''[09:30:05] Running: tar -czf /w/a.tar.gz'' @ nl, ''tar: write error''] \<and>
   fst (runCommand tar_fails_env demo_builder ''tar'' [''-czf'', ''/w/a.tar.gz''] (world_of [])) =
     Some (ExitError 2)"
  using runCommand_logs_then_returns [of tar_fails_env demo_builder "''tar''" "[''-czf'', ''/w/a.tar.gz'']"
      "world_of []"]
  by (simp add: running_line_def captured_def tar_fails_env_def demo_builder_def format_hms_def
      demo_clock_def pad2_def digit_def)

subsection \<open>Cloning a layer\<close>










lemma copying_env_exit [simp]: "cmd_exit copying_env t name args = Exited 0"
  by (simp add: copying_env_def)



subsection \<open>The provisioning scripts\<close>

lemma count_runs_append [simp]: "count_runs c (a @ b) = count_runs c a + count_runs c b"
  by (simp add: count_runs_def)

lemma count_runs_simps [simp]:
  "count_runs c [] = 0"
  "count_runs c (Echo m # evs) = count_runs c evs"
  "count_runs c (Ran c' st # evs) = (if c' = c then Suc (count_runs c evs) else count_runs c evs)"
  by (simp_all add: count_runs_def)

lemma sh_run_events: "snd (sh_run env c evs) = evs @ [Ran c (env c (count_runs c evs))]"
  by (simp add: sh_run_def Let_def)

lemma sh_run_status: "fst (sh_run env c evs) = env c (count_runs c evs)"
  by (simp add: sh_run_def Let_def)

lemma count_runs_sh_run [simp]:
  "count_runs c (snd (sh_run env c' evs)) = count_runs c evs + (if c' = c then 1 else 0)"
  by (simp add: sh_run_events)

lemma count_runs_or_echo [simp]:
  "count_runs c (sh_run_or_echo env c' m evs) = count_runs c evs + (if c' = c then 1 else 0)"
  by (simp add: sh_run_or_echo_def split_def Let_def)

lemma java8_after_install_runs:
  "count_runs apt_get_update (snd (java8_after_install env evs)) = count_runs apt_get_update evs"
  by (simp add: java8_after_install_def Let_def split_def)

lemma java8_after_install_status: "fst (java8_after_install env evs) = 0"
  by (simp add: java8_after_install_def Let_def split_def)

lemma java8_after_install_sleeps:
  "count_runs ''sleep 5'' (snd (java8_after_install env evs)) = count_runs ''sleep 5'' evs"
  by (simp add: java8_after_install_def Let_def split_def)

lemma java8_after_install_installs:
  "count_runs apt_get_install_jdk (snd (java8_after_install env evs)) = count_runs apt_get_install_jdk evs"
  by (simp add: java8_after_install_def Let_def split_def)

lemma java8_before_update_counts [simp]:
  "count_runs apt_get_update (java8_before_update env) = 0"
  "count_runs ''sleep 5'' (java8_before_update env) = 0"
  "count_runs apt_get_install_jdk (java8_before_update env) = 0"
  by (simp_all add: java8_before_update_def Let_def split_def)

lemma update_attempts_first:
  assumes "count_runs apt_get_update evs = 0" "env apt_get_update 0 = 0"
  shows "fst (update_attempts env [1, 2, 3] evs)"
    "count_runs apt_get_update (snd (update_attempts env [1, 2, 3] evs)) = 1"
    "count_runs ''sleep 5'' (snd (update_attempts env [1, 2, 3] evs)) = count_runs ''sleep 5'' evs"
    "count_runs apt_get_install_jdk (snd (update_attempts env [1, 2, 3] evs)) = count_runs apt_get_install_jdk evs"
  using assms by (simp_all add: Let_def split_def sh_run_status numeral_2_eq_2)

lemma update_attempts_second:
  assumes "count_runs apt_get_update evs = 0" "env apt_get_update 0 \<noteq> 0" "env apt_get_update 1 = 0"
  shows "fst (update_attempts env [1, 2, 3] evs)"
    "count_runs apt_get_update (snd (update_attempts env [1, 2, 3] evs)) = 2"
    "count_runs ''sleep 5'' (snd (update_attempts env [1, 2, 3] evs)) = count_runs ''sleep 5'' evs + 1"
    "count_runs apt_get_install_jdk (snd (update_attempts env [1, 2, 3] evs)) = count_runs apt_get_install_jdk evs"
  using assms by (simp_all add: Let_def split_def sh_run_status numeral_2_eq_2)

lemma update_attempts_third:
  assumes "count_runs apt_get_update evs = 0" "env apt_get_update 0 \<noteq> 0" "env apt_get_update 1 \<noteq> 0"
    "env apt_get_update 2 = 0"
  shows "fst (update_attempts env [1, 2, 3] evs)"
    "count_runs apt_get_update (snd (update_attempts env [1, 2, 3] evs)) = 3"
    "count_runs ''sleep 5'' (snd (update_attempts env [1, 2, 3] evs)) = count_runs ''sleep 5'' evs + 2"
    "count_runs apt_get_install_jdk (snd (update_attempts env [1, 2, 3] evs)) = count_runs apt_get_install_jdk evs"
  using assms by (simp_all add: Let_def split_def sh_run_status numeral_2_eq_2)

lemma update_attempts_none:
  assumes "count_runs apt_get_update evs = 0" "env apt_get_update 0 \<noteq> 0" "env apt_get_update 1 \<noteq> 0"
    "env apt_get_update 2 \<noteq> 0"
  shows "\<not> fst (update_attempts env [1, 2, 3] evs)"
    "count_runs apt_get_update (snd (update_attempts env [1, 2, 3] evs)) = 3"
    "count_runs ''sleep 5'' (snd (update_attempts env [1, 2, 3] evs)) = count_runs ''sleep 5'' evs + 3"
    "count_runs apt_get_install_jdk (snd (update_attempts env [1, 2, 3] evs)) = count_runs apt_get_install_jdk evs"
  using assms by (simp_all add: Let_def split_def sh_run_status numeral_2_eq_2)

lemma java8_setup_script_unfold:
  "java8_setup_script env =
     (let (UPDATE_SUCCESS, evs7) = update_attempts env [1, 2, 3] (java8_before_update env)
      in if \<not> UPDATE_SUCCESS
         then (1, evs7 @ [Echo ([CHR 0xE2, CHR 0x9D, CHR 0x8C] @ '' All apt-get update attempts failed'')])
         else
           (let evs8 = evs7 @ [Echo ([CHR 0xE2, CHR 0x98, CHR 0x95] @ '' RUN apt-get install -y openjdk-8-jdk'')] @ [Echo ''Setting DEBIAN_FRONTEND=noninteractive...''] @
                         [Echo ''Running apt-get install...''];
                (st3, evs9) = sh_run env apt_get_install_jdk evs8
            in if st3 = 0 then java8_after_install env evs9
               else
                 (let evs10 = evs9 @ [Echo ([CHR 0xE2, CHR 0x9D, CHR 0x8C] @ '' Java 8 installation failed (exit code '' @ show_nat st3 @ '')'')] @
                                [Echo ''Checking available packages...'']
                  in (1, sh_run_or_echo env ''apt-cache search openjdk-8'' ''Package search failed''
                           evs10))))"
  unfolding java8_setup_script_def java8_before_update_def Let_def split_def by (rule refl)

lemma java8_counts_success:
  assumes "fst (update_attempts env [1, 2, 3] (java8_before_update env))"
  shows "count_runs apt_get_update (snd (java8_setup_script env)) =
           count_runs apt_get_update (snd (update_attempts env [1, 2, 3] (java8_before_update env)))"
    "count_runs ''sleep 5'' (snd (java8_setup_script env)) =
           count_runs ''sleep 5'' (snd (update_attempts env [1, 2, 3] (java8_before_update env)))"
    "count_runs apt_get_install_jdk (snd (java8_setup_script env)) =
           Suc (count_runs apt_get_install_jdk (snd (update_attempts env [1, 2, 3] (java8_before_update env))))"
  using assms
  by (simp_all add: java8_setup_script_unfold Let_def split_def java8_after_install_runs
      java8_after_install_sleeps java8_after_install_installs)

lemma java8_counts_failure:
  assumes "\<not> fst (update_attempts env [1, 2, 3] (java8_before_update env))"
  shows "count_runs apt_get_update (snd (java8_setup_script env)) =
           count_runs apt_get_update (snd (update_attempts env [1, 2, 3] (java8_before_update env)))"
    "count_runs ''sleep 5'' (snd (java8_setup_script env)) =
           count_runs ''sleep 5'' (snd (update_attempts env [1, 2, 3] (java8_before_update env)))"
    "count_runs apt_get_install_jdk (snd (java8_setup_script env)) =
           count_runs apt_get_install_jdk (snd (update_attempts env [1, 2, 3] (java8_before_update env)))"
    "fst (java8_setup_script env) = 1"
  using assms
  by (simp_all add: java8_setup_script_unfold Let_def split_def)

lemma errexit_steps_runs:
  "count_runs c (snd (errexit_steps env steps evs)) \<le>
     count_runs c evs + length (filter (step_runs c) steps)"
proof (induction env steps evs rule: errexit_steps.induct)
  case (1 env evs)
  then show ?case by simp
next
  case (2 env m rest evs)
  then show ?case by simp
next
  case (3 env c' rest evs)
  show ?case
  proof (cases "fst (sh_run env c' evs) = 0")
    case True
    have pair: "(fst (sh_run env c' evs), snd (sh_run env c' evs)) = sh_run env c' evs"
      by simp
    have "count_runs c (snd (errexit_steps env rest (snd (sh_run env c' evs)))) \<le>
        count_runs c (snd (sh_run env c' evs)) + length (filter (step_runs c) rest)"
      using "3.IH" [OF refl pair] True by simp
    then show ?thesis
      using True by (auto simp add: split_def Let_def)
  next
    case False
    then show ?thesis
      by (auto simp add: split_def Let_def)
  qed
next
  case (4 env c' m rest evs)
  then show ?case by auto
qed

lemma ubuntu_update_steps: "length (filter (step_runs apt_get_update) ubuntu_setup_steps) = 1"
  by (simp add: ubuntu_setup_steps_def)

lemma ubuntu_setup_script_failed_update:
  assumes "env ''cat > /etc/resolv.conf'' 0 = 0" "env apt_get_update 0 \<noteq> 0"
  shows "fst (ubuntu_setup_script env) = env apt_get_update 0"
    "count_runs apt_get_update (snd (ubuntu_setup_script env)) = 1"
  using assms
  by (simp_all add: ubuntu_setup_script_def ubuntu_setup_steps_def split_def Let_def sh_run_status)

text \<open>
  Claim C5, amended. In the Java 8 layer script the package-index refresh is attempted at
  most 3 times, with \<open>sleep 5\<close> after every failed attempt; the first success ends the
  retries (1, 2 or 3 attempts) and the script goes on to the installation; only when all 3
  attempts fail does the script exit with status 1 at this step, before any installation.
  The base image script runs the refresh at most once, without retry: under \<open>set -e\<close> it
  exits with the status of the first failed attempt.
\<close>

theorem update_retried_three_times:
  "(env apt_get_update 0 = 0 \<longrightarrow>
      count_runs apt_get_update (snd (java8_setup_script env)) = 1 \<and>
      count_runs ''sleep 5'' (snd (java8_setup_script env)) = 0 \<and>
      count_runs apt_get_install_jdk (snd (java8_setup_script env)) = 1) \<and>
   (env apt_get_update 0 \<noteq> 0 \<and> env apt_get_update 1 = 0 \<longrightarrow>
      count_runs apt_get_update (snd (java8_setup_script env)) = 2 \<and>
      count_runs ''sleep 5'' (snd (java8_setup_script env)) = 1 \<and>
      count_runs apt_get_install_jdk (snd (java8_setup_script env)) = 1) \<and>
   (env apt_get_update 0 \<noteq> 0 \<and> env apt_get_update 1 \<noteq> 0 \<and> env apt_get_update 2 = 0 \<longrightarrow>
      count_runs apt_get_update (snd (java8_setup_script env)) = 3 \<and>
      count_runs ''sleep 5'' (snd (java8_setup_script env)) = 2 \<and>
      count_runs apt_get_install_jdk (snd (java8_setup_script env)) = 1) \<and>
   (env apt_get_update 0 \<noteq> 0 \<and> env apt_get_update 1 \<noteq> 0 \<and> env apt_get_update 2 \<noteq> 0 \<longrightarrow>
      count_runs apt_get_update (snd (java8_setup_script env)) = 3 \<and>
      count_runs ''sleep 5'' (snd (java8_setup_script env)) = 3 \<and>
      count_runs apt_get_install_jdk (snd (java8_setup_script env)) = 0 \<and>
      fst (java8_setup_script env) = 1) \<and>
   count_runs apt_get_update (snd (ubuntu_setup_script env)) \<le> 1 \<and>
   (env ''cat > /etc/resolv.conf'' 0 = 0 \<and> env apt_get_update 0 \<noteq> 0 \<longrightarrow>
      count_runs apt_get_update (snd (ubuntu_setup_script env)) = 1 \<and>
      fst (ubuntu_setup_script env) = env apt_get_update 0)"
proof (intro conjI impI)
  note z = java8_before_update_counts [of env]
  {
    assume a: "env apt_get_update 0 = 0"
    note u = update_attempts_first [of "java8_before_update env" env, OF z(1) a]
    note c = java8_counts_success [OF u(1)]
    show "count_runs apt_get_update (snd (java8_setup_script env)) = 1"
      using c(1) u(2) by simp
    show "count_runs ''sleep 5'' (snd (java8_setup_script env)) = 0"
      using c(2) u(3) z(2) by simp
    show "count_runs apt_get_install_jdk (snd (java8_setup_script env)) = 1"
      using c(3) u(4) z(3) by simp
  next
    assume a: "env apt_get_update 0 \<noteq> 0 \<and> env apt_get_update 1 = 0"
    note u = update_attempts_second [of "java8_before_update env" env, OF z(1) conjunct1 [OF a] conjunct2 [OF a]]
    note c = java8_counts_success [OF u(1)]
    show "count_runs apt_get_update (snd (java8_setup_script env)) = 2"
      using c(1) u(2) by simp
    show "count_runs ''sleep 5'' (snd (java8_setup_script env)) = 1"
      using c(2) u(3) z(2) by simp
    show "count_runs apt_get_install_jdk (snd (java8_setup_script env)) = 1"
      using c(3) u(4) z(3) by simp
  next
    assume a: "env apt_get_update 0 \<noteq> 0 \<and> env apt_get_update 1 \<noteq> 0 \<and> env apt_get_update 2 = 0"
    then have a0: "env apt_get_update 0 \<noteq> 0" and a1: "env apt_get_update 1 \<noteq> 0"
      and a2: "env apt_get_update 2 = 0" by blast+
    note u = update_attempts_third [of "java8_before_update env" env, OF z(1) a0 a1 a2]
    note c = java8_counts_success [OF u(1)]
    show "count_runs apt_get_update (snd (java8_setup_script env)) = 3"
      using c(1) u(2) by simp
    show "count_runs ''sleep 5'' (snd (java8_setup_script env)) = 2"
      using c(2) u(3) z(2) by simp
    show "count_runs apt_get_install_jdk (snd (java8_setup_script env)) = 1"
      using c(3) u(4) z(3) by simp
  next
    assume a: "env apt_get_update 0 \<noteq> 0 \<and> env apt_get_update 1 \<noteq> 0 \<and> env apt_get_update 2 \<noteq> 0"
    then have a0: "env apt_get_update 0 \<noteq> 0" and a1: "env apt_get_update 1 \<noteq> 0"
      and a2: "env apt_get_update 2 \<noteq> 0" by blast+
    note u = update_attempts_none [of "java8_before_update env" env, OF z(1) a0 a1 a2]
    note c = java8_counts_failure [OF u(1)]
    show "count_runs apt_get_update (snd (java8_setup_script env)) = 3"
      using c(1) u(2) by simp
    show "count_runs ''sleep 5'' (snd (java8_setup_script env)) = 3"
      using c(2) u(3) z(2) by simp
    show "count_runs apt_get_install_jdk (snd (java8_setup_script env)) = 0"
      using c(3) u(4) z(3) by simp
    show "fst (java8_setup_script env) = 1"
      using c(4) .
  next
    show "count_runs apt_get_update (snd (ubuntu_setup_script env)) \<le> 1"
      using errexit_steps_runs [of apt_get_update env ubuntu_setup_steps "[]"] ubuntu_update_steps
      by (simp add: ubuntu_setup_script_def)
  next
    assume a: "env ''cat > /etc/resolv.conf'' 0 = 0 \<and> env apt_get_update 0 \<noteq> 0"
    note r = ubuntu_setup_script_failed_update [of env, OF conjunct1 [OF a] conjunct2 [OF a]]
    show "count_runs apt_get_update (snd (ubuntu_setup_script env)) = 1"
      using r(2) .
    show "fst (ubuntu_setup_script env) = env apt_get_update 0"
      using r(1) .
  }
qed

theorem update_retried_three_times_witness:
  "update_fails_once apt_get_update 0 \<noteq> 0 \<and> update_fails_once apt_get_update 1 = 0 \<and>
   count_runs apt_get_update (snd (java8_setup_script update_fails_once)) = 2 \<and>
   count_runs ''sleep 5'' (snd (java8_setup_script update_fails_once)) = 1 \<and>
   count_runs apt_get_install_jdk (snd (java8_setup_script update_fails_once)) = 1 \<and>
   update_fails_once ''cat > /etc/resolv.conf'' 0 = 0 \<and>
   count_runs apt_get_update (snd (ubuntu_setup_script update_fails_once)) = 1"
proof -
  have h: "update_fails_once apt_get_update 0 \<noteq> 0" "update_fails_once apt_get_update 1 = 0"
    "update_fails_once ''cat > /etc/resolv.conf'' 0 = 0"
    by (simp_all add: update_fails_once_def)
  show ?thesis
    using h update_retried_three_times [of update_fails_once] by blast
qed

text \<open>
  Claim C5 as stated fails for the base image script: when only the first
  \<open>apt-get update\<close> fails (later ones would succeed), the script exits with that failure
  after a single attempt.
\<close>

theorem base_script_fails_after_one_attempt:
  "fst (ubuntu_setup_script update_fails_once) = 100 \<and>
   count_runs apt_get_update (snd (ubuntu_setup_script update_fails_once)) = 1 \<and>
   update_fails_once apt_get_update 1 = 0 \<and>
   update_fails_once apt_get_update 2 = 0"
  by (simp add: ubuntu_setup_script_def ubuntu_setup_steps_def split_def Let_def sh_run_status
      sh_run_events update_fails_once_def)

end
